theory Spec2Isabelle
  imports Main
begin

section \<open>JavaScript values and objects\<close>

text \<open>
  The relay is a single JavaScript function, \<open>handler\<close> in \<open>api/proxy.js\<close>, with four
  helpers. The embedding keeps JavaScript's own data: a string is a list of characters
  (code units below 256, which covers every literal of the source), a parsed JSON text
  is a value of \<open>json\<close>, and an object is the list of its own properties in the order
  JavaScript enumerates them, read and written by exact, case-sensitive key as
  JavaScript does. Numbers are kept as integers: the handler only asks for their type
  and truthiness.
\<close>

datatype json =
    JNull
  | JBool bool
  | JNum int
  | JStr string
  | JArr "json list"
  | JObj "(string \<times> json) list"

text \<open>Truthiness and \<open>typeof\<close> of a parsed JSON value.\<close>

fun truthy :: "json \<Rightarrow> bool" where
  "truthy JNull = False"
| "truthy (JBool b) = b"
| "truthy (JNum n) = (n \<noteq> 0)"
| "truthy (JStr s) = (s \<noteq> [])"
| "truthy (JArr xs) = True"
| "truthy (JObj kvs) = True"

fun typeof :: "json \<Rightarrow> string" where
  "typeof JNull = ''object''"
| "typeof (JBool b) = ''boolean''"
| "typeof (JNum n) = ''number''"
| "typeof (JStr s) = ''string''"
| "typeof (JArr xs) = ''object''"
| "typeof (JObj kvs) = ''object''"

text \<open>A query parameter or header value is a string or \<open>undefined\<close>; the empty string is falsy.\<close>

fun truthy_str :: "string option \<Rightarrow> bool" where
  "truthy_str None = False"
| "truthy_str (Some s) = (s \<noteq> [])"

text \<open>\<open>a || b\<close> on such a value, and on a property of an object of JSON values.\<close>

fun or_str :: "string option \<Rightarrow> string \<Rightarrow> string" where
  "or_str None d = d"
| "or_str (Some s) d = (if s \<noteq> [] then s else d)"

fun or_json :: "json option \<Rightarrow> json \<Rightarrow> json" where
  "or_json None d = d"
| "or_json (Some v) d = (if truthy v then v else d)"

subsection \<open>String methods\<close>

text \<open>\<open>String.prototype.toLowerCase\<close> on code units below 256.\<close>

definition lower_char :: "char \<Rightarrow> char" where
  "lower_char c =
     (let n = (of_char c :: nat)
      in if (65 \<le> n \<and> n \<le> 90) \<or> (192 \<le> n \<and> n \<le> 222 \<and> n \<noteq> 215)
         then char_of (n + 32) else c)"

definition toLowerCase :: "string \<Rightarrow> string" where
  "toLowerCase s = map lower_char s"

text \<open>\<open>String.prototype.trim\<close>: white space and line terminators below 256.\<close>

definition is_space :: "char \<Rightarrow> bool" where
  "is_space c = ((of_char c :: nat) \<in> {9, 10, 11, 12, 13, 32, 160})"

definition trim :: "string \<Rightarrow> string" where
  "trim s = rev (dropWhile is_space (rev (dropWhile is_space s)))"

text \<open>\<open>s.split(c)\<close> for a one-character separator: never the empty list.\<close>

fun split :: "char \<Rightarrow> string \<Rightarrow> string list" where
  "split c [] = [[]]"
| "split c (x # xs) =
     (if x = c then [] # split c xs
      else (case split c xs of [] \<Rightarrow> [[x]] | w # ws \<Rightarrow> (x # w) # ws))"

subsection \<open>Objects\<close>

type_synonym 'v js_object = "(string \<times> 'v) list"

text \<open>
  The own property \<open>k\<close> of an object, or \<open>None\<close> when it has none. This is what
  \<open>obj[k]\<close> returns for every key the source reads (\<open>origin\<close>, \<open>user-agent\<close> and
  the six \<open>Access-Control-\<close> names): none of them is a member of \<open>Object.prototype\<close>,
  and the objects read still have that prototype when they are read.
\<close>

definition obj_get :: "'v js_object \<Rightarrow> string \<Rightarrow> 'v option" where
  "obj_get obj k = map_of obj k"

text \<open>
  An array index is the canonical decimal name of a number below \<open>2^32 - 1\<close>.
  JavaScript enumerates the properties named by array indices first, in ascending
  order, and the others after them in the order of their creation.
\<close>

definition decimal :: "string \<Rightarrow> int" where
  "decimal s = foldl (\<lambda>n c. 10 * n + (of_char c - 48)) 0 s"

definition is_digit :: "char \<Rightarrow> bool" where
  "is_digit c = (48 \<le> (of_char c :: nat) \<and> (of_char c :: nat) \<le> 57)"

definition array_index :: "string \<Rightarrow> int option" where
  "array_index s =
     (case s of
        [] \<Rightarrow> None
      | c # cs \<Rightarrow>
          if list_all is_digit s \<and> (cs = [] \<or> c \<noteq> CHR ''0'') \<and> decimal s < 4294967295
          then Some (decimal s) else None)"

fun replace_value :: "string \<Rightarrow> 'v \<Rightarrow> 'v js_object \<Rightarrow> 'v js_object" where
  "replace_value k v [] = []"
| "replace_value k v (p # obj) =
     (if fst p = k then (k, v) # obj else p # replace_value k v obj)"

fun insert_index :: "int \<Rightarrow> string \<Rightarrow> 'v \<Rightarrow> 'v js_object \<Rightarrow> 'v js_object" where
  "insert_index i k v [] = [(k, v)]"
| "insert_index i k v (p # obj) =
     (case array_index (fst p) of
        None \<Rightarrow> (k, v) # p # obj
      | Some j \<Rightarrow> if j < i then p # insert_index i k v obj else (k, v) # p # obj)"

text \<open>
  \<open>obj[k] = v\<close> on a plain object. For \<open>k = '__proto__'\<close> the assignment runs the
  setter of \<open>Object.prototype\<close> and creates no own property (it changes the
  prototype when \<open>v\<close> is an object or \<open>null\<close>, and does nothing otherwise). An
  existing property keeps its place; a new one is enumerated among the array
  indices, or last.
\<close>

definition obj_set :: "string \<Rightarrow> 'v \<Rightarrow> 'v js_object \<Rightarrow> 'v js_object" where
  "obj_set k v obj =
     (if k = ''__proto__'' then obj
      else if k \<in> fst ` set obj then replace_value k v obj
      else (case array_index k of
              None \<Rightarrow> obj @ [(k, v)]
            | Some i \<Rightarrow> insert_index i k v obj))"

text \<open>\<open>delete obj[k]\<close>.\<close>

definition obj_delete :: "string \<Rightarrow> 'v js_object \<Rightarrow> 'v js_object" where
  "obj_delete k obj = filter (\<lambda>p. fst p \<noteq> k) obj"

text \<open>\<open>for (const [k, v] of entries) target[k] = v\<close>.\<close>

fun assign_all :: "'v js_object \<Rightarrow> 'v js_object \<Rightarrow> 'v js_object" where
  "assign_all target [] = target"
| "assign_all target (p # ps) = assign_all (obj_set (fst p) (snd p) target) ps"

text \<open>
  HTTP header names are case-insensitive: the values an object holds for a header are
  those of all its properties whose name equals the header's name up to letter case.
\<close>

definition header_values :: "'v js_object \<Rightarrow> string \<Rightarrow> 'v list" where
  "header_values obj name =
     map snd (filter (\<lambda>p. toLowerCase (fst p) = toLowerCase name) obj)"

text \<open>The decimal name of an array index, as \<open>Object.entries\<close> gives it.\<close>

fun index_name :: "nat \<Rightarrow> string" where
  "index_name n =
     (if n < 10 then [char_of (48 + n)]
      else index_name (n div 10) @ [char_of (48 + n mod 10)])"

declare index_name.simps [simp del]

text \<open>
  \<open>Object.entries\<close> of a value that passed the \<open>typeof\<close> test of \<open>decodeHeaderBase64\<close>:
  the properties of an object (\<open>JSON.parse\<close> makes every key an own property, also
  \<open>__proto__\<close>), the indexed elements of an array. The other constructors never
  reach it.
\<close>

fun entries :: "json \<Rightarrow> json js_object" where
  "entries (JObj kvs) = kvs"
| "entries (JArr xs) = zip (map index_name [0..<length xs]) xs"
| "entries v = []"

section \<open>The runtime the handler runs in\<close>

text \<open>
  What the source takes from Node and the hosting platform is a parameter of the model:
  \<open>Buffer.from(h64, 'base64').toString('utf8')\<close>, \<open>JSON.parse\<close> and \<open>new URL\<close> (each
  \<open>None\<close> when it throws), \<open>process.env.ALLOWLIST\<close>, \<open>fetch\<close>, which either rejects
  with an error message or resolves to the upstream response, and
  \<open>upstream.body.pipe(res)\<close> with the \<open>on('error', ...)\<close> after it, \<open>None\<close> when
  both return and the message when one throws (a body that is a web stream has no
  \<open>pipe\<close>, and the call is a \<open>TypeError\<close>). \<open>res.writeHead\<close> and \<open>res.end\<close>
  are taken to return normally when the head has not been written yet: the handler
  gives them a status between 200 and 599 and header values that came through an
  HTTP parser. The general theorems hold for every such runtime; the concrete
  evaluations use the example runtime defined further down.
\<close>

record url =
  protocol :: string
  hostname :: string

record 'a fetch_init =
  init_method :: string
  init_headers :: "json js_object"
  init_body :: "'a option"

text \<open>
  The resolved value of \<open>fetch\<close>. \<open>up_headers\<close> lists the pairs
  \<open>upstream.headers.forEach\<close> visits, in its order; \<open>up_body\<close> is the body stream,
  which the handler pipes into the response, or \<open>None\<close> for \<open>null\<close>.
\<close>

record 'b upstream =
  up_status :: nat
  up_headers :: "(string \<times> string) list"
  up_body :: "'b option"

record ('a, 'b) runtime =
  base64_utf8 :: "string \<Rightarrow> string option"
  JSON_parse :: "string \<Rightarrow> json option"
  URL_parse :: "string \<Rightarrow> url option"
  env_ALLOWLIST :: "string option"
  fetch :: "string \<Rightarrow> 'a fetch_init \<Rightarrow> string + 'b upstream"
  pipe :: "'b \<Rightarrow> string option"

text \<open>The inbound request; \<open>req_stream\<close> is the request read as a body stream.\<close>

record 'a request =
  req_method :: string
  query_url :: "string option"
  query_h64 :: "string option"
  req_headers :: "string js_object"
  req_stream :: 'a

text \<open>
  What the handler does to \<open>res\<close>: \<open>writeHead(status, headers)\<close>, then \<open>end()\<close>,
  \<open>end(JSON.stringify(v))\<close> or \<open>body.pipe(res)\<close>; and the calls of \<open>fetch\<close> it made.
  \<open>Unfinished message\<close> is the relay whose piping threw \<open>message\<close> after the head
  was written: the \<open>catch\<close> block then calls \<open>writeHead(502, ...)\<close> on a response
  whose head is already sent, which throws in its turn, so the response is never
  ended and that last exception leaves the handler.
\<close>

datatype 'b res_body = End_empty | End_json json | Piped 'b | Unfinished string

record ('a, 'b) outcome =
  res_status :: nat
  res_headers :: "string js_object"
  res_body :: "'b res_body"
  fetch_calls :: "(string \<times> 'a fetch_init) list"

datatype exn = TypeError_Invalid_URL

section \<open>The source\<close>

definition HOP_BY_HOP :: "string list" where
  "HOP_BY_HOP =
     [''connection'', ''keep-alive'', ''proxy-authenticate'', ''proxy-authorization'',
      ''te'', ''trailers'', ''transfer-encoding'', ''upgrade'', ''host'']"

definition decodeHeaderBase64 :: "('a, 'b) runtime \<Rightarrow> string \<Rightarrow> json option" where
  "decodeHeaderBase64 rt h64 =
     (case base64_utf8 rt h64 of
        None \<Rightarrow> None
      | Some text \<Rightarrow>
          (case JSON_parse rt text of
             None \<Rightarrow> None
           | Some obj \<Rightarrow> if truthy obj \<and> typeof obj = ''object'' then Some obj else None))"

definition corsHeaders :: "string option \<Rightarrow> string js_object" where
  "corsHeaders origin_arg =
     (let origin = (case origin_arg of None \<Rightarrow> ''*'' | Some s \<Rightarrow> s)
      in [(''Access-Control-Allow-Origin'', origin),
          (''Access-Control-Allow-Credentials'', ''false''),
          (''Access-Control-Allow-Methods'', ''GET,POST,PUT,PATCH,DELETE,OPTIONS''),
          (''Access-Control-Allow-Headers'',
             ''Content-Type, Authorization, X-Requested-With, X-CSRF-Token, Accept, Origin''),
          (''Access-Control-Max-Age'', ''86400'')])"

definition isHttpUrl :: "('a, 'b) runtime \<Rightarrow> string \<Rightarrow> bool" where
  "isHttpUrl rt u =
     (case URL_parse rt u of
        None \<Rightarrow> False
      | Some parsed \<Rightarrow> protocol parsed = ''http:'' \<or> protocol parsed = ''https:'')"

definition allowedByEnv :: "('a, 'b) runtime \<Rightarrow> string \<Rightarrow> exn + bool" where
  "allowedByEnv rt u =
     (let allow = env_ALLOWLIST rt
      in if \<not> truthy_str allow then Inr True
         else (case URL_parse rt u of
                 None \<Rightarrow> Inl TypeError_Invalid_URL
               | Some parsed \<Rightarrow>
                   Inr (toLowerCase (hostname parsed)
                          \<in> set (map (\<lambda>s. toLowerCase (trim s))
                                   (split (CHR '','') (case allow of None \<Rightarrow> [] | Some a \<Rightarrow> a))))))"

text \<open>The error messages of the source; \<open>0xE1\<close> is the letter a with an acute accent.\<close>

definition msg_missing_url :: string where
  "msg_missing_url = ''Falta el par'' @ [CHR 0xE1] @ ''metro ?url=''"

definition msg_invalid_url :: string where
  "msg_invalid_url = ''URL inv'' @ [CHR 0xE1] @ ''lida o protocolo no permitido''"

definition msg_host_not_allowed :: string where
  "msg_host_not_allowed = ''Host no permitido por ALLOWLIST''"

definition default_user_agent :: string where
  "default_user_agent = ''Mozilla/5.0 (CORS-Proxy on Vercel)''"

definition default_expose_headers :: string where
  "default_expose_headers = ''Content-Type, Content-Length, ETag''"

text \<open>\<open>{ 'Content-Type': 'application/json', ...corsHeaders(origin) }\<close>\<close>

definition json_error_headers :: "string \<Rightarrow> string js_object" where
  "json_error_headers origin =
     assign_all [(''Content-Type'', ''application/json'')] (corsHeaders (Some origin))"

text \<open>Lines 92 to 97: the loop that copies the inbound headers.\<close>

fun copy_request_headers :: "json js_object \<Rightarrow> string js_object \<Rightarrow> json js_object" where
  "copy_request_headers acc [] = acc"
| "copy_request_headers acc (p # ps) =
     copy_request_headers
       (if toLowerCase (fst p) \<notin> set HOP_BY_HOP then obj_set (fst p) (JStr (snd p)) acc else acc)
       ps"

text \<open>Lines 89 to 103: the headers of the outbound request.\<close>

definition extraHeaders :: "('a, 'b) runtime \<Rightarrow> 'a request \<Rightarrow> json option" where
  "extraHeaders rt req =
     (case query_h64 req of
        None \<Rightarrow> None
      | Some h64 \<Rightarrow> if h64 \<noteq> [] then decodeHeaderBase64 rt h64 else None)"

definition upstreamHeaders :: "('a, 'b) runtime \<Rightarrow> 'a request \<Rightarrow> json js_object" where
  "upstreamHeaders rt req =
     (let h1 = copy_request_headers [] (req_headers req);
          h2 = obj_set ''user-agent''
                 (or_json (obj_get h1 ''user-agent'') (JStr default_user_agent)) h1;
          h3 = obj_delete ''origin'' h2
      in case extraHeaders rt req of
           None \<Rightarrow> h3
         | Some extra \<Rightarrow> assign_all h3 (entries extra))"

text \<open>Lines 105 to 110.\<close>

definition fetch_init_of :: "('a, 'b) runtime \<Rightarrow> 'a request \<Rightarrow> 'a fetch_init" where
  "fetch_init_of rt req =
     \<lparr> init_method = req_method req,
       init_headers = upstreamHeaders rt req,
       init_body = (if req_method req \<in> set [''GET'', ''HEAD''] then None
                    else Some (req_stream req)) \<rparr>"

text \<open>Lines 115 to 118: the loop that copies the upstream headers.\<close>

fun copy_response_headers :: "string js_object \<Rightarrow> (string \<times> string) list \<Rightarrow> string js_object" where
  "copy_response_headers acc [] = acc"
| "copy_response_headers acc (p # ps) =
     copy_response_headers
       (if toLowerCase (fst p) \<notin> set HOP_BY_HOP then obj_set (fst p) (snd p) acc else acc)
       ps"

text \<open>
  \<open>headers[k] = cors[k]\<close>. \<open>corsHeaders\<close> defines each of the five keys it is used
  with, so the value is never \<open>undefined\<close>.
\<close>

definition copy_key :: "string \<Rightarrow> string js_object \<Rightarrow> string js_object \<Rightarrow> string js_object" where
  "copy_key k src dst = (case obj_get src k of None \<Rightarrow> dst | Some v \<Rightarrow> obj_set k v dst)"

text \<open>Lines 115 to 127: the headers of the relayed response.\<close>

definition relay_headers :: "string \<Rightarrow> (string \<times> string) list \<Rightarrow> string js_object" where
  "relay_headers origin hs =
     (let h0 = copy_response_headers [] hs;
          cors = corsHeaders (Some origin);
          h1 = copy_key ''Access-Control-Allow-Origin'' cors h0;
          h2 = copy_key ''Access-Control-Allow-Credentials'' cors h1;
          h3 = copy_key ''Access-Control-Allow-Methods'' cors h2;
          h4 = copy_key ''Access-Control-Allow-Headers'' cors h3;
          h5 = copy_key ''Access-Control-Max-Age'' cors h4
      in obj_set ''Access-Control-Expose-Headers''
           (or_str (obj_get h5 ''Access-Control-Expose-Headers'') default_expose_headers) h5)"

text \<open>
  The handler. A rejected \<open>fetch\<close> is the \<open>catch\<close> branch, entered before anything
  is written; a throwing \<open>pipe\<close> enters it after the head is written. The exception
  \<open>allowedByEnv\<close> could raise is outside the \<open>try\<close> and would leave the handler
  before any response.
\<close>

definition handler :: "('a, 'b) runtime \<Rightarrow> 'a request \<Rightarrow> exn + ('a, 'b) outcome" where
  "handler rt req =
     (let url = query_url req;
          origin = or_str (obj_get (req_headers req) ''origin'') ''*''
      in if req_method req = ''OPTIONS'' then
           Inr \<lparr> res_status = 204, res_headers = corsHeaders (Some origin),
                 res_body = End_empty, fetch_calls = [] \<rparr>
         else if \<not> truthy_str url then
           Inr \<lparr> res_status = 400, res_headers = json_error_headers origin,
                 res_body = End_json (JObj [(''error'', JStr msg_missing_url)]),
                 fetch_calls = [] \<rparr>
         else
           (let u = (case url of None \<Rightarrow> [] | Some s \<Rightarrow> s)
            in if \<not> isHttpUrl rt u then
                 Inr \<lparr> res_status = 400, res_headers = json_error_headers origin,
                       res_body = End_json (JObj [(''error'', JStr msg_invalid_url)]),
                       fetch_calls = [] \<rparr>
               else
                 (case allowedByEnv rt u of
                    Inl e \<Rightarrow> Inl e
                  | Inr allowed \<Rightarrow>
                      if \<not> allowed then
                        Inr \<lparr> res_status = 403, res_headers = json_error_headers origin,
                              res_body = End_json (JObj [(''error'', JStr msg_host_not_allowed)]),
                              fetch_calls = [] \<rparr>
                      else
                        (let init = fetch_init_of rt req
                         in case fetch rt u init of
                              Inl message \<Rightarrow>
                                Inr \<lparr> res_status = 502, res_headers = json_error_headers origin,
                                      res_body = End_json (JObj [(''error'', JStr ''Upstream error''),
                                                                (''detail'', JStr message)]),
                                      fetch_calls = [(u, init)] \<rparr>
                            | Inr upstream \<Rightarrow>
                                Inr \<lparr> res_status = up_status upstream,
                                      res_headers = relay_headers origin (up_headers upstream),
                                      res_body = (case up_body upstream of
                                                    None \<Rightarrow> End_empty
                                                  | Some b \<Rightarrow>
                                                      (case pipe rt b of
                                                         None \<Rightarrow> Piped b
                                                       | Some thrown \<Rightarrow> Unfinished thrown)),
                                      fetch_calls = [(u, init)] \<rparr>))))"

section \<open>Validation, and concrete inputs\<close>

text \<open>
  A request passes validation when the guards of lines 64 to 86 let it through to the
  construction of the outbound request: it is not a preflight, \<open>url\<close> is truthy,
  \<open>isHttpUrl\<close> accepts it and \<open>allowedByEnv\<close> returns true.
\<close>

definition passes_validation :: "('a, 'b) runtime \<Rightarrow> 'a request \<Rightarrow> string \<Rightarrow> bool" where
  "passes_validation rt req u \<equiv>
     req_method req \<noteq> ''OPTIONS'' \<and> query_url req = Some u \<and> u \<noteq> [] \<and>
     isHttpUrl rt u \<and> allowedByEnv rt u = Inr True"

text \<open>
  A runtime with no allow-list, whose \<open>fetch\<close> reaches one host and fails to resolve
  every other and whose bodies can be piped, and a browser's GET through the relay.
  Bodies are strings here.
\<close>

definition example_runtime :: "(string, string) runtime" where
  \<open>example_runtime =
     \<lparr> base64_utf8 = (\<lambda>s.
         if s = ''eyJBdXRob3JpemF0aW9uIjoiQmVhcmVyIGFiYyJ9''
           then Some ''{"Authorization":"Bearer abc"}''
         else if s = ''eyJvcmlnaW4iOiJodHRwczovL3Nwb29mLmV4YW1wbGUiLCJob3N0IjoiaW50ZXJuYWwuZXhhbXBsZSJ9''
           then Some ''{"origin":"https://spoof.example","host":"internal.example"}''
         else if s = ''WyJhIl0='' then Some ''["a"]''
         else if s = ''eyJfX3Byb3RvX18iOiJ4In0='' then Some ''{"__proto__":"x"}''
         else Some []),
       JSON_parse = (\<lambda>t.
         if t = ''{"Authorization":"Bearer abc"}''
           then Some (JObj [(''Authorization'', JStr ''Bearer abc'')])
         else if t = ''{"origin":"https://spoof.example","host":"internal.example"}''
           then Some (JObj [(''origin'', JStr ''https://spoof.example''),
                            (''host'', JStr ''internal.example'')])
         else if t = ''["a"]'' then Some (JArr [JStr ''a''])
         else if t = ''{"__proto__":"x"}'' then Some (JObj [(''__proto__'', JStr ''x'')])
         else None),
       URL_parse = (\<lambda>u.
         if u = ''https://api.example.com/data''
           then Some \<lparr> protocol = ''https:'', hostname = ''api.example.com'' \<rparr>
         else if u = ''https://other.com/x''
           then Some \<lparr> protocol = ''https:'', hostname = ''other.com'' \<rparr>
         else if u = ''ftp://example.com''
           then Some \<lparr> protocol = ''ftp:'', hostname = ''example.com'' \<rparr>
         else None),
       env_ALLOWLIST = None,
       fetch = (\<lambda>u init.
         if u = ''https://api.example.com/data''
           then Inr \<lparr> up_status = 200,
                      up_headers = [(''access-control-expose-headers'', ''X-Request-Id''),
                                    (''connection'', ''keep-alive''),
                                    (''content-type'', ''application/json'')],
                      up_body = Some ''{"ok":true}'' \<rparr>
         else Inl ''getaddrinfo ENOTFOUND other.com''),
       pipe = (\<lambda>b. None) \<rparr>\<close>

definition example_request :: "string request" where
  \<open>example_request =
     \<lparr> req_method = ''GET'',
       query_url = Some ''https://api.example.com/data'',
       query_h64 = None,
       req_headers = [(''host'', ''relay.example''),
                      (''origin'', ''https://app.example''),
                      (''user-agent'', ''curl/8.0''),
                      (''authorization'', ''Basic b2xk'')],
       req_stream = ''{"hello":"world"}'' \<rparr>\<close>



section \<open>Reading and writing properties\<close>

lemma obj_get_empty: "obj_get [] k = None"
  by (simp add: obj_get_def)

lemma map_of_fresh: "k \<notin> fst ` set ps \<Longrightarrow> map_of ps k = None"
  by (simp add: map_of_eq_None_iff)

lemma not_in_names: "k \<notin> fst ` set obj \<Longrightarrow> (k, v) \<notin> set obj"
  by force

lemma map_of_append_fresh:
  "k \<notin> fst ` set obj \<Longrightarrow>
   map_of (obj @ [(k, v)]) k' = (if k' = k then Some v else map_of obj k')"
  by (auto simp: map_add_def map_of_fresh split: option.splits)

subsection \<open>The three ways an assignment changes the list\<close>

lemma map_of_replace_value:
  "map_of (replace_value k v obj) k' =
     (if k' = k \<and> k \<in> fst ` set obj then Some v else map_of obj k')"
  by (induction obj) (auto simp: not_in_names)

lemma names_replace_value: "map fst (replace_value k v obj) = map fst obj"
  by (induction obj) auto

lemma map_of_insert_index:
  "k \<notin> fst ` set obj \<Longrightarrow>
   map_of (insert_index i k v obj) k' = (if k' = k then Some v else map_of obj k')"
  by (induction obj) (auto split: option.splits)

lemma set_insert_index: "set (insert_index i k v obj) = insert (k, v) (set obj)"
  by (induction obj) (auto split: option.splits)

lemma distinct_insert_index:
  "distinct (map fst obj) \<Longrightarrow> k \<notin> fst ` set obj \<Longrightarrow>
   distinct (map fst (insert_index i k v obj))"
  by (induction obj) (auto simp: set_insert_index split: option.splits)

lemma array_index_not_digit: "\<not> is_digit c \<Longrightarrow> array_index (c # cs) = None"
  by (simp add: array_index_def)

subsection \<open>Assignment\<close>


lemma obj_get_obj_set:
  "obj_get (obj_set k v obj) k' =
     (if k \<noteq> ''__proto__'' \<and> k' = k then Some v else obj_get obj k')"
proof (cases "k = ''__proto__''")
  case True
  then show ?thesis by (simp add: obj_set_def)
next
  case proto: False
  show ?thesis
  proof (cases "k \<in> fst ` set obj")
    case True
    with proto show ?thesis
      by (simp add: obj_get_def obj_set_def map_of_replace_value)
  next
    case False
    show ?thesis
    proof (cases "array_index k")
      case None
      with proto False have "obj_set k v obj = obj @ [(k, v)]"
        by (simp add: obj_set_def)
      then have "obj_get (obj_set k v obj) k' = map_of (obj @ [(k, v)]) k'"
        by (simp only: obj_get_def)
      also have "\<dots> = (if k' = k then Some v else map_of obj k')"
        using False by (rule map_of_append_fresh)
      finally show ?thesis
        using proto by (simp add: obj_get_def)
    next
      case (Some i)
      with proto False have "obj_set k v obj = insert_index i k v obj"
        by (simp add: obj_set_def)
      with proto False show ?thesis
        by (simp add: obj_get_def map_of_insert_index)
    qed
  qed
qed

lemma names_obj_set:
  "fst ` set (obj_set k v obj) =
     (if k = ''__proto__'' then fst ` set obj else insert k (fst ` set obj))"
proof -
  have "fst ` set (replace_value k v obj) = fst ` set obj"
    using names_replace_value [of k v obj] by (metis list.set_map)
  then show ?thesis
    by (auto simp: obj_set_def set_insert_index split: option.splits)
qed

lemma distinct_obj_set:
  "distinct (map fst obj) \<Longrightarrow> distinct (map fst (obj_set k v obj))"
  by (auto simp: obj_set_def names_replace_value distinct_insert_index split: option.splits)

lemma obj_get_obj_delete:
  "obj_get (obj_delete k obj) k' = (if k' = k then None else obj_get obj k')"
  by (induction obj) (auto simp: obj_get_def obj_delete_def)




lemma obj_get_assign_all:
  "distinct (map fst ps) \<Longrightarrow>
   obj_get (assign_all target ps) k =
     (case map_of ps k of
        None \<Rightarrow> obj_get target k
      | Some v \<Rightarrow> if k = ''__proto__'' then obj_get target k else Some v)"
proof (induction ps arbitrary: target)
  case Nil
  then show ?case by simp
next
  case (Cons p ps)
  then show ?case
    by (cases p)
       (auto simp: obj_get_obj_set map_of_fresh not_in_names split: option.splits
          dest: map_of_SomeD)
qed

lemma names_assign_all:
  "fst ` set (assign_all target ps) \<subseteq> fst ` set target \<union> fst ` set ps"
proof (induction ps arbitrary: target)
  case Nil
  then show ?case by simp
next
  case (Cons p ps)
  have "fst ` set (assign_all (obj_set (fst p) (snd p) target) ps)
      \<subseteq> fst ` set (obj_set (fst p) (snd p) target) \<union> fst ` set ps"
    by (rule Cons.IH)
  then show ?case
    by (auto simp: names_obj_set split: if_splits)
qed

lemma distinct_assign_all:
  "distinct (map fst target) \<Longrightarrow> distinct (map fst (assign_all target ps))"
  by (induction ps arbitrary: target) (simp_all add: distinct_obj_set)

subsection \<open>Lower case\<close>



lemma lower_names:
  "toLowerCase ''origin'' = ''origin''"
  "toLowerCase ''user-agent'' = ''user-agent''"
  "toLowerCase ''__proto__'' = ''__proto__''"
  "toLowerCase ''Content-Type'' = ''content-type''"
  "toLowerCase ''Access-Control-Allow-Origin'' = ''access-control-allow-origin''"
  "toLowerCase ''Access-Control-Allow-Credentials'' = ''access-control-allow-credentials''"
  "toLowerCase ''Access-Control-Allow-Methods'' = ''access-control-allow-methods''"
  "toLowerCase ''Access-Control-Allow-Headers'' = ''access-control-allow-headers''"
  "toLowerCase ''Access-Control-Max-Age'' = ''access-control-max-age''"
  "toLowerCase ''Access-Control-Expose-Headers'' = ''access-control-expose-headers''"
  by code_simp+

lemma lower_user_agent: "toLowerCase ''user-agent'' = ''user-agent''"
  by (rule lower_names)

lemma user_agent_not_hop: "toLowerCase k \<in> set HOP_BY_HOP \<Longrightarrow> k \<noteq> ''user-agent''"
  using lower_user_agent by (auto simp: HOP_BY_HOP_def)

lemma proto_not_hop: "toLowerCase k \<in> set HOP_BY_HOP \<Longrightarrow> k \<noteq> ''__proto__''"
  using lower_names(3) by (auto simp: HOP_BY_HOP_def)

subsection \<open>The values of a header\<close>

lemma header_values_Nil: "header_values [] n = []"
  by (simp add: header_values_def)

lemma header_values_Cons:
  "header_values (p # obj) n =
     (if toLowerCase (fst p) = toLowerCase n then snd p # header_values obj n
      else header_values obj n)"
  by (simp add: header_values_def)

lemma header_values_append:
  "header_values (obj @ obj') n = header_values obj n @ header_values obj' n"
  by (simp add: header_values_def)

lemma header_values_eq_Nil:
  "header_values obj n = [] \<longleftrightarrow> (\<forall>k \<in> fst ` set obj. toLowerCase k \<noteq> toLowerCase n)"
  by (auto simp: header_values_def filter_empty_conv)

lemma header_values_filter_names:
  "header_values (filter (\<lambda>p. P (fst p)) obj) n =
     map snd (filter (\<lambda>p. P (fst p) \<and> toLowerCase (fst p) = toLowerCase n) obj)"
  by (induction obj) (auto simp: header_values_def)

lemma obj_get_in_header_values: "obj_get obj k = Some v \<Longrightarrow> v \<in> set (header_values obj k)"
  by (force simp: obj_get_def header_values_def dest: map_of_SomeD)

lemma header_values_replace_other:
  "toLowerCase k \<noteq> toLowerCase n \<Longrightarrow>
   header_values (replace_value k v obj) n = header_values obj n"
  by (induction obj) (auto simp: header_values_Cons)

lemma header_values_insert_other:
  "toLowerCase k \<noteq> toLowerCase n \<Longrightarrow>
   header_values (insert_index i k v obj) n = header_values obj n"
  by (induction obj) (auto simp: header_values_Cons header_values_Nil split: option.splits)

lemma header_values_obj_set_other:
  "toLowerCase k \<noteq> toLowerCase n \<Longrightarrow> header_values (obj_set k v obj) n = header_values obj n"
  by (auto simp: obj_set_def header_values_replace_other header_values_insert_other
        header_values_append header_values_Cons header_values_Nil split: option.splits)

lemma header_values_insert_fresh:
  "toLowerCase k = toLowerCase n \<Longrightarrow> header_values obj n = [] \<Longrightarrow>
   header_values (insert_index i k v obj) n = [v]"
  by (induction obj) (auto simp: header_values_Cons header_values_Nil split: option.splits if_splits)

lemma header_values_obj_set_fresh:
  assumes "k \<noteq> ''__proto__''" and "toLowerCase k = toLowerCase n"
    and "header_values obj n = []"
  shows "header_values (obj_set k v obj) n = [v]"
proof -
  from assms(2,3) have "k \<notin> fst ` set obj"
    by (auto simp: header_values_eq_Nil)
  with assms show ?thesis
    by (auto simp: obj_set_def header_values_append header_values_Cons header_values_Nil
          header_values_insert_fresh split: option.splits)
qed





subsection \<open>The two copying loops\<close>


lemma hop_name_not_copied:
  "toLowerCase k \<in> set HOP_BY_HOP \<Longrightarrow>
   obj_get (copy_request_headers acc hs) k = obj_get acc k"
  by (induction hs arbitrary: acc) (auto simp: obj_get_obj_set)

lemma names_copy_request_headers:
  "fst ` set (copy_request_headers acc hs) \<subseteq> fst ` set acc \<union> fst ` set hs"
proof (induction hs arbitrary: acc)
  case Nil
  then show ?case by simp
next
  case (Cons p ps)
  let ?acc = "if toLowerCase (fst p) \<notin> set HOP_BY_HOP
      then obj_set (fst p) (JStr (snd p)) acc else acc"
  have "fst ` set (copy_request_headers ?acc ps) \<subseteq> fst ` set ?acc \<union> fst ` set ps"
    by (rule Cons.IH)
  then show ?case
    by (auto simp: names_obj_set split: if_splits)
qed


lemma obj_get_copy_response_headers:
  "distinct (map fst hs) \<Longrightarrow>
   obj_get (copy_response_headers acc hs) k =
     (case map_of hs k of
        None \<Rightarrow> obj_get acc k
      | Some v \<Rightarrow>
          if toLowerCase k \<in> set HOP_BY_HOP \<or> k = ''__proto__'' then obj_get acc k
          else Some v)"
proof (induction hs arbitrary: acc)
  case Nil
  then show ?case by simp
next
  case (Cons p ps)
  then show ?case
    by (cases p)
       (auto simp: obj_get_obj_set map_of_fresh not_in_names split: option.splits
          dest: map_of_SomeD)
qed

lemma name_not_visited:
  "k \<notin> fst ` set hs \<Longrightarrow> obj_get (copy_response_headers acc hs) k = obj_get acc k"
  by (induction hs arbitrary: acc) (auto simp: obj_get_obj_set)

lemma header_values_copy_response_headers:
  "\<forall>p \<in> set hs. toLowerCase (fst p) \<noteq> toLowerCase n \<Longrightarrow>
   header_values (copy_response_headers acc hs) n = header_values acc n"
  by (induction hs arbitrary: acc) (simp_all add: header_values_obj_set_other)

section \<open>The header sets\<close>

lemma corsHeaders_eq:
  "corsHeaders (Some origin) =
     [(''Access-Control-Allow-Origin'', origin),
      (''Access-Control-Allow-Credentials'', ''false''),
      (''Access-Control-Allow-Methods'', ''GET,POST,PUT,PATCH,DELETE,OPTIONS''),
      (''Access-Control-Allow-Headers'',
         ''Content-Type, Authorization, X-Requested-With, X-CSRF-Token, Accept, Origin''),
      (''Access-Control-Max-Age'', ''86400'')]"
  by (simp add: corsHeaders_def)

lemma json_error_headers_eq:
  "json_error_headers origin = (''Content-Type'', ''application/json'') # corsHeaders (Some origin)"
  by (simp add: json_error_headers_def corsHeaders_eq obj_set_def array_index_not_digit
        is_digit_def)

lemma cors_lookup:
  "obj_get (corsHeaders (Some origin)) ''Access-Control-Allow-Origin'' = Some origin"
  "obj_get (corsHeaders (Some origin)) ''Access-Control-Allow-Credentials'' = Some ''false''"
  "obj_get (corsHeaders (Some origin)) ''Access-Control-Allow-Methods'' =
     Some ''GET,POST,PUT,PATCH,DELETE,OPTIONS''"
  "obj_get (corsHeaders (Some origin)) ''Access-Control-Allow-Headers'' =
     Some ''Content-Type, Authorization, X-Requested-With, X-CSRF-Token, Accept, Origin''"
  "obj_get (corsHeaders (Some origin)) ''Access-Control-Max-Age'' = Some ''86400''"
  by (simp_all add: corsHeaders_eq obj_get_def)

lemma json_error_lookup:
  "obj_get (json_error_headers origin) ''Content-Type'' = Some ''application/json''"
  "obj_get (json_error_headers origin) ''Access-Control-Allow-Origin'' = Some origin"
  "obj_get (json_error_headers origin) ''Access-Control-Allow-Credentials'' = Some ''false''"
  "obj_get (json_error_headers origin) ''Access-Control-Allow-Methods'' =
     Some ''GET,POST,PUT,PATCH,DELETE,OPTIONS''"
  "obj_get (json_error_headers origin) ''Access-Control-Allow-Headers'' =
     Some ''Content-Type, Authorization, X-Requested-With, X-CSRF-Token, Accept, Origin''"
  "obj_get (json_error_headers origin) ''Access-Control-Max-Age'' = Some ''86400''"
  by (simp_all add: json_error_headers_eq corsHeaders_eq obj_get_def)

lemma relay_lookup:
  "obj_get (relay_headers origin hs) ''Access-Control-Allow-Origin'' = Some origin"
  "obj_get (relay_headers origin hs) ''Access-Control-Allow-Credentials'' = Some ''false''"
  "obj_get (relay_headers origin hs) ''Access-Control-Allow-Methods'' =
     Some ''GET,POST,PUT,PATCH,DELETE,OPTIONS''"
  "obj_get (relay_headers origin hs) ''Access-Control-Allow-Headers'' =
     Some ''Content-Type, Authorization, X-Requested-With, X-CSRF-Token, Accept, Origin''"
  "obj_get (relay_headers origin hs) ''Access-Control-Max-Age'' = Some ''86400''"
  by (simp_all add: relay_headers_def Let_def copy_key_def cors_lookup obj_get_obj_set)

section \<open>The paths of the handler\<close>

lemma allowedByEnv_defined: "isHttpUrl rt u \<Longrightarrow> \<exists>b. allowedByEnv rt u = Inr b"
  by (auto simp: isHttpUrl_def allowedByEnv_def Let_def split: option.splits)

lemma handler_preflight:
  "req_method req = ''OPTIONS'' \<Longrightarrow>
   handler rt req =
     Inr \<lparr> res_status = 204,
           res_headers = corsHeaders (Some (or_str (obj_get (req_headers req) ''origin'') ''*'')),
           res_body = End_empty, fetch_calls = [] \<rparr>"
  by (simp add: handler_def)

lemma handler_missing_url:
  "req_method req \<noteq> ''OPTIONS'' \<Longrightarrow> \<not> truthy_str (query_url req) \<Longrightarrow>
   handler rt req =
     Inr \<lparr> res_status = 400,
           res_headers = json_error_headers (or_str (obj_get (req_headers req) ''origin'') ''*''),
           res_body = End_json (JObj [(''error'', JStr msg_missing_url)]),
           fetch_calls = [] \<rparr>"
  by (simp add: handler_def)

lemma handler_invalid_url:
  "req_method req \<noteq> ''OPTIONS'' \<Longrightarrow> query_url req = Some u \<Longrightarrow> u \<noteq> [] \<Longrightarrow>
   \<not> isHttpUrl rt u \<Longrightarrow>
   handler rt req =
     Inr \<lparr> res_status = 400,
           res_headers = json_error_headers (or_str (obj_get (req_headers req) ''origin'') ''*''),
           res_body = End_json (JObj [(''error'', JStr msg_invalid_url)]),
           fetch_calls = [] \<rparr>"
  by (simp add: handler_def)

lemma handler_host_not_allowed:
  "req_method req \<noteq> ''OPTIONS'' \<Longrightarrow> query_url req = Some u \<Longrightarrow> u \<noteq> [] \<Longrightarrow>
   isHttpUrl rt u \<Longrightarrow> allowedByEnv rt u = Inr False \<Longrightarrow>
   handler rt req =
     Inr \<lparr> res_status = 403,
           res_headers = json_error_headers (or_str (obj_get (req_headers req) ''origin'') ''*''),
           res_body = End_json (JObj [(''error'', JStr msg_host_not_allowed)]),
           fetch_calls = [] \<rparr>"
  by (simp add: handler_def)

lemma handler_upstream_error:
  "passes_validation rt req u \<Longrightarrow> fetch rt u (fetch_init_of rt req) = Inl message \<Longrightarrow>
   handler rt req =
     Inr \<lparr> res_status = 502,
           res_headers = json_error_headers (or_str (obj_get (req_headers req) ''origin'') ''*''),
           res_body = End_json (JObj [(''error'', JStr ''Upstream error''),
                                     (''detail'', JStr message)]),
           fetch_calls = [(u, fetch_init_of rt req)] \<rparr>"
  by (simp add: handler_def passes_validation_def Let_def)

lemma handler_relay:
  "passes_validation rt req u \<Longrightarrow> fetch rt u (fetch_init_of rt req) = Inr upstream \<Longrightarrow>
   handler rt req =
     Inr \<lparr> res_status = up_status upstream,
           res_headers = relay_headers (or_str (obj_get (req_headers req) ''origin'') ''*'')
                           (up_headers upstream),
           res_body = (case up_body upstream of
                         None \<Rightarrow> End_empty
                       | Some b \<Rightarrow>
                           (case pipe rt b of
                              None \<Rightarrow> Piped b
                            | Some thrown \<Rightarrow> Unfinished thrown)),
           fetch_calls = [(u, fetch_init_of rt req)] \<rparr>"
  by (simp add: handler_def passes_validation_def Let_def)

lemma handler_issues_one_call:
  "passes_validation rt req u \<Longrightarrow>
   \<exists>out. handler rt req = Inr out \<and> fetch_calls out = [(u, fetch_init_of rt req)]"
  by (cases "fetch rt u (fetch_init_of rt req)")
     (simp_all add: handler_upstream_error handler_relay)

text \<open>Every request takes exactly one of the six paths.\<close>

lemma handler_paths:
  obtains (preflight) "req_method req = ''OPTIONS''"
  | (missing) "req_method req \<noteq> ''OPTIONS''" "\<not> truthy_str (query_url req)"
  | (invalid) u where "req_method req \<noteq> ''OPTIONS''" "query_url req = Some u" "u \<noteq> []"
      "\<not> isHttpUrl rt u"
  | (forbidden) u where "req_method req \<noteq> ''OPTIONS''" "query_url req = Some u" "u \<noteq> []"
      "isHttpUrl rt u" "allowedByEnv rt u = Inr False"
  | (failed) u message where "passes_validation rt req u"
      "fetch rt u (fetch_init_of rt req) = Inl message"
  | (relayed) u upstream where "passes_validation rt req u"
      "fetch rt u (fetch_init_of rt req) = Inr upstream"
proof (cases "req_method req = ''OPTIONS''")
  case True
  then show ?thesis by (rule preflight)
next
  case not_options: False
  show ?thesis
  proof (cases "truthy_str (query_url req)")
    case False
    with not_options show ?thesis by (rule missing)
  next
    case True
    then obtain u where u: "query_url req = Some u" "u \<noteq> []"
      by (cases "query_url req") auto
    show ?thesis
    proof (cases "isHttpUrl rt u")
      case False
      with not_options u show ?thesis by (rule invalid)
    next
      case http: True
      then obtain b where b: "allowedByEnv rt u = Inr b"
        using allowedByEnv_defined by blast
      show ?thesis
      proof (cases b)
        case False
        with not_options u http b show ?thesis by (auto intro: forbidden)
      next
        case True
        with not_options u http b have pv: "passes_validation rt req u"
          by (simp add: passes_validation_def)
        show ?thesis
        proof (cases "fetch rt u (fetch_init_of rt req)")
          case (Inl message)
          with pv show ?thesis by (rule failed)
        next
          case (Inr upstream)
          with pv show ?thesis by (rule relayed)
        qed
      qed
    qed
  qed
qed

subsection \<open>An entry named \<open>__proto__\<close>\<close>

text \<open>
  \<open>JSON.parse\<close> gives the object of \<open>h64 = base64({"__proto__": "x"})\<close> an own
  property of that name, so line 102 visits it; the assignment
  \<open>upstreamHeaders['__proto__'] = 'x'\<close> is the prototype setter and stores nothing.
  The upstream call is the one of the request without \<open>h64\<close>.
\<close>

lemma proto_entry_is_not_sent:
  \<open>extraHeaders example_runtime
     (example_request\<lparr> query_h64 := Some ''eyJfX3Byb3RvX18iOiJ4In0='' \<rparr>) =
     Some (JObj [(''__proto__'', JStr ''x'')]) \<and>
   fetch_init_of example_runtime
     (example_request\<lparr> query_h64 := Some ''eyJfX3Byb3RvX18iOiJ4In0='' \<rparr>) =
     \<lparr> init_method = ''GET'',
       init_headers = [(''user-agent'', JStr ''curl/8.0''),
                       (''authorization'', JStr ''Basic b2xk'')],
       init_body = None \<rparr> \<and>
   fetch_init_of example_runtime example_request =
     \<lparr> init_method = ''GET'',
       init_headers = [(''user-agent'', JStr ''curl/8.0''),
                       (''authorization'', JStr ''Basic b2xk'')],
       init_body = None \<rparr>\<close>
  by code_simp

section \<open>C1: the cross-origin headers on every response\<close>

text \<open>
  The values of the five cross-origin headers, names compared without regard to
  letter case, in each of the three header objects the handler writes.
\<close>

lemma cors_header_values:
  "header_values (corsHeaders (Some origin)) ''Access-Control-Allow-Origin'' = [origin]"
  "header_values (corsHeaders (Some origin)) ''Access-Control-Allow-Credentials'' = [''false'']"
  "header_values (corsHeaders (Some origin)) ''Access-Control-Allow-Methods'' =
     [''GET,POST,PUT,PATCH,DELETE,OPTIONS'']"
  "header_values (corsHeaders (Some origin)) ''Access-Control-Allow-Headers'' =
     [''Content-Type, Authorization, X-Requested-With, X-CSRF-Token, Accept, Origin'']"
  "header_values (corsHeaders (Some origin)) ''Access-Control-Max-Age'' = [''86400'']"
  by (simp_all add: corsHeaders_eq header_values_Cons header_values_Nil lower_names)

lemma json_error_header_values:
  "header_values (json_error_headers origin) ''Access-Control-Allow-Origin'' = [origin]"
  "header_values (json_error_headers origin) ''Access-Control-Allow-Credentials'' = [''false'']"
  "header_values (json_error_headers origin) ''Access-Control-Allow-Methods'' =
     [''GET,POST,PUT,PATCH,DELETE,OPTIONS'']"
  "header_values (json_error_headers origin) ''Access-Control-Allow-Headers'' =
     [''Content-Type, Authorization, X-Requested-With, X-CSRF-Token, Accept, Origin'']"
  "header_values (json_error_headers origin) ''Access-Control-Max-Age'' = [''86400'']"
  by (simp_all add: json_error_headers_eq corsHeaders_eq header_values_Cons header_values_Nil
        lower_names)

lemma relay_header_values:
  assumes "\<forall>p \<in> set hs. toLowerCase (fst p) \<notin>
      {''access-control-allow-origin'', ''access-control-allow-credentials'',
       ''access-control-allow-methods'', ''access-control-allow-headers'',
       ''access-control-max-age''}"
  shows "header_values (relay_headers origin hs) ''Access-Control-Allow-Origin'' = [origin]"
    and "header_values (relay_headers origin hs) ''Access-Control-Allow-Credentials'' = [''false'']"
    and "header_values (relay_headers origin hs) ''Access-Control-Allow-Methods'' =
      [''GET,POST,PUT,PATCH,DELETE,OPTIONS'']"
    and "header_values (relay_headers origin hs) ''Access-Control-Allow-Headers'' =
      [''Content-Type, Authorization, X-Requested-With, X-CSRF-Token, Accept, Origin'']"
    and "header_values (relay_headers origin hs) ''Access-Control-Max-Age'' = [''86400'']"
proof -
  let ?h0 = "copy_response_headers [] hs"
  have none: "header_values ?h0 ''Access-Control-Allow-Origin'' = []"
    "header_values ?h0 ''Access-Control-Allow-Credentials'' = []"
    "header_values ?h0 ''Access-Control-Allow-Methods'' = []"
    "header_values ?h0 ''Access-Control-Allow-Headers'' = []"
    "header_values ?h0 ''Access-Control-Max-Age'' = []"
    using assms
    by (simp_all add: header_values_copy_response_headers header_values_Nil lower_names)
  show "header_values (relay_headers origin hs) ''Access-Control-Allow-Origin'' = [origin]"
    by (simp add: relay_headers_def Let_def copy_key_def cors_lookup none lower_names
          header_values_obj_set_other header_values_obj_set_fresh)
  show "header_values (relay_headers origin hs) ''Access-Control-Allow-Credentials'' = [''false'']"
    by (simp add: relay_headers_def Let_def copy_key_def cors_lookup none lower_names
          header_values_obj_set_other header_values_obj_set_fresh)
  show "header_values (relay_headers origin hs) ''Access-Control-Allow-Methods'' =
      [''GET,POST,PUT,PATCH,DELETE,OPTIONS'']"
    by (simp add: relay_headers_def Let_def copy_key_def cors_lookup none lower_names
          header_values_obj_set_other header_values_obj_set_fresh)
  show "header_values (relay_headers origin hs) ''Access-Control-Allow-Headers'' =
      [''Content-Type, Authorization, X-Requested-With, X-CSRF-Token, Accept, Origin'']"
    by (simp add: relay_headers_def Let_def copy_key_def cors_lookup none lower_names
          header_values_obj_set_other header_values_obj_set_fresh)
  show "header_values (relay_headers origin hs) ''Access-Control-Max-Age'' = [''86400'']"
    by (simp add: relay_headers_def Let_def copy_key_def cors_lookup none lower_names
          header_values_obj_set_other header_values_obj_set_fresh)
qed

text \<open>
  Where the upstream response carries a cross-origin header of its own, line 117
  copies it under its lower-case name and lines 122 to 126 write the relay's under
  the capitalised one: the relayed response then holds two values for the header.
\<close>

lemma relay_keeps_upstream_allow_origin:
  "header_values
     (relay_headers ''https://app.example''
        [(''access-control-allow-origin'', ''https://elsewhere.example'')])
     ''Access-Control-Allow-Origin'' =
   [''https://elsewhere.example'', ''https://app.example'']"
  by code_simp

text \<open>
  Claim C1, as amended. For every runtime and every inbound request the handler
  writes a response head, on whichever of its paths (preflight, missing url, invalid
  url, host not allowed, upstream failure, relay), and the header object of that
  response holds the five cross-origin headers under their capitalised names:
  \<open>Access-Control-Allow-Origin\<close> is the inbound \<open>origin\<close> header when that header is
  present and not empty and \<open>*\<close> when it is absent or empty,
  \<open>Access-Control-Allow-Credentials\<close> is the string \<open>false\<close>, and the other three
  have their fixed values. With header names compared without regard to letter
  case, these are the only values of the five headers on every path, a relay
  included when the upstream response carries none of the five itself. The relay of
  an upstream response that does carry one is left open.
\<close>

theorem cors_headers_on_every_response:
  "\<exists>out. handler rt req = Inr out \<and>
     obj_get (res_headers out) ''Access-Control-Allow-Origin'' =
       Some (case obj_get (req_headers req) ''origin'' of
               None \<Rightarrow> ''*'' | Some v \<Rightarrow> if v = [] then ''*'' else v) \<and>
     obj_get (res_headers out) ''Access-Control-Allow-Credentials'' = Some ''false'' \<and>
     obj_get (res_headers out) ''Access-Control-Allow-Methods'' =
       Some ''GET,POST,PUT,PATCH,DELETE,OPTIONS'' \<and>
     obj_get (res_headers out) ''Access-Control-Allow-Headers'' =
       Some ''Content-Type, Authorization, X-Requested-With, X-CSRF-Token, Accept, Origin'' \<and>
     obj_get (res_headers out) ''Access-Control-Max-Age'' = Some ''86400'' \<and>
     ((\<forall>u upstream.
         passes_validation rt req u \<and> fetch rt u (fetch_init_of rt req) = Inr upstream \<longrightarrow>
         (\<forall>p \<in> set (up_headers upstream). toLowerCase (fst p) \<notin>
            {''access-control-allow-origin'', ''access-control-allow-credentials'',
             ''access-control-allow-methods'', ''access-control-allow-headers'',
             ''access-control-max-age''})) \<longrightarrow>
      header_values (res_headers out) ''Access-Control-Allow-Origin'' =
        [case obj_get (req_headers req) ''origin'' of
           None \<Rightarrow> ''*'' | Some v \<Rightarrow> if v = [] then ''*'' else v] \<and>
      header_values (res_headers out) ''Access-Control-Allow-Credentials'' = [''false''] \<and>
      header_values (res_headers out) ''Access-Control-Allow-Methods'' =
        [''GET,POST,PUT,PATCH,DELETE,OPTIONS''] \<and>
      header_values (res_headers out) ''Access-Control-Allow-Headers'' =
        [''Content-Type, Authorization, X-Requested-With, X-CSRF-Token, Accept, Origin''] \<and>
      header_values (res_headers out) ''Access-Control-Max-Age'' = [''86400''])"
proof -
  have origin: "or_str (obj_get (req_headers req) ''origin'') ''*'' =
      (case obj_get (req_headers req) ''origin'' of
         None \<Rightarrow> ''*'' | Some v \<Rightarrow> if v = [] then ''*'' else v)"
    by (cases "obj_get (req_headers req) ''origin''") simp_all
  show ?thesis
  proof (cases rule: handler_paths [where req = req and rt = rt])
    case preflight
    then show ?thesis
      by (simp add: handler_preflight cors_lookup cors_header_values origin)
  next
    case missing
    then show ?thesis
      by (simp add: handler_missing_url json_error_lookup json_error_header_values origin)
  next
    case (invalid u)
    then show ?thesis
      by (simp add: handler_invalid_url json_error_lookup json_error_header_values origin)
  next
    case (forbidden u)
    then show ?thesis
      by (simp add: handler_host_not_allowed json_error_lookup json_error_header_values origin)
  next
    case (failed u message)
    then show ?thesis
      by (simp add: handler_upstream_error json_error_lookup json_error_header_values origin)
  next
    case (relayed u upstream)
    let ?origin = "case obj_get (req_headers req) ''origin'' of
        None \<Rightarrow> ''*'' | Some v \<Rightarrow> if v = [] then ''*'' else v"
    let ?out = "\<lparr> res_status = up_status upstream,
        res_headers = relay_headers ?origin (up_headers upstream),
        res_body = (case up_body upstream of
                      None \<Rightarrow> End_empty
                    | Some b \<Rightarrow>
                        (case pipe rt b of
                           None \<Rightarrow> Piped b
                         | Some thrown \<Rightarrow> Unfinished thrown)),
        fetch_calls = [(u, fetch_init_of rt req)] \<rparr>"
    from relayed have out: "handler rt req = Inr ?out"
      by (simp add: handler_relay origin)
    show ?thesis
    proof (intro exI [of _ ?out] conjI impI)
      show "handler rt req = Inr ?out"
        by (rule out)
      show "obj_get (res_headers ?out) ''Access-Control-Allow-Origin'' = Some ?origin"
        "obj_get (res_headers ?out) ''Access-Control-Allow-Credentials'' = Some ''false''"
        "obj_get (res_headers ?out) ''Access-Control-Allow-Methods'' =
           Some ''GET,POST,PUT,PATCH,DELETE,OPTIONS''"
        "obj_get (res_headers ?out) ''Access-Control-Allow-Headers'' =
           Some ''Content-Type, Authorization, X-Requested-With, X-CSRF-Token, Accept, Origin''"
        "obj_get (res_headers ?out) ''Access-Control-Max-Age'' = Some ''86400''"
        by (simp_all add: relay_lookup)
      assume "\<forall>u upstream.
         passes_validation rt req u \<and> fetch rt u (fetch_init_of rt req) = Inr upstream \<longrightarrow>
         (\<forall>p \<in> set (up_headers upstream). toLowerCase (fst p) \<notin>
            {''access-control-allow-origin'', ''access-control-allow-credentials'',
             ''access-control-allow-methods'', ''access-control-allow-headers'',
             ''access-control-max-age''})"
      with relayed have clean: "\<forall>p \<in> set (up_headers upstream). toLowerCase (fst p) \<notin>
          {''access-control-allow-origin'', ''access-control-allow-credentials'',
           ''access-control-allow-methods'', ''access-control-allow-headers'',
           ''access-control-max-age''}"
        by blast
      show "header_values (res_headers ?out) ''Access-Control-Allow-Origin'' = [?origin]"
        "header_values (res_headers ?out) ''Access-Control-Allow-Credentials'' = [''false'']"
        "header_values (res_headers ?out) ''Access-Control-Allow-Methods'' =
           [''GET,POST,PUT,PATCH,DELETE,OPTIONS'']"
        "header_values (res_headers ?out) ''Access-Control-Allow-Headers'' =
           [''Content-Type, Authorization, X-Requested-With, X-CSRF-Token, Accept, Origin'']"
        "header_values (res_headers ?out) ''Access-Control-Max-Age'' = [''86400'']"
        using relay_header_values [OF clean, of ?origin] by simp_all
    qed
  qed
qed

text \<open>
  The theorem at the example request: its upstream answers without cross-origin
  headers of the five names, and the \<open>origin\<close> header is echoed as the only value.
\<close>

theorem cors_headers_on_every_response_witness:
  \<open>\<exists>out. handler example_runtime example_request = Inr out \<and>
      obj_get (res_headers out) ''Access-Control-Allow-Origin'' = Some ''https://app.example'' \<and>
      obj_get (res_headers out) ''Access-Control-Allow-Credentials'' = Some ''false'' \<and>
      header_values (res_headers out) ''Access-Control-Allow-Origin'' = [''https://app.example''] \<and>
      header_values (res_headers out) ''Access-Control-Allow-Credentials'' = [''false'']\<close>
proof -
  have low: "toLowerCase ''access-control-expose-headers'' = ''access-control-expose-headers''"
    "toLowerCase ''connection'' = ''connection''"
    "toLowerCase ''content-type'' = ''content-type''"
    by code_simp+
  have clean: "\<forall>u upstream.
       passes_validation example_runtime example_request u \<and>
       fetch example_runtime u (fetch_init_of example_runtime example_request) = Inr upstream \<longrightarrow>
       (\<forall>p \<in> set (up_headers upstream). toLowerCase (fst p) \<notin>
          {''access-control-allow-origin'', ''access-control-allow-credentials'',
           ''access-control-allow-methods'', ''access-control-allow-headers'',
           ''access-control-max-age''})"
    by (auto simp: example_runtime_def low split: if_splits)
  have origin: "obj_get (req_headers example_request) ''origin'' = Some ''https://app.example''"
    by (simp add: example_request_def obj_get_def)
  from cors_headers_on_every_response [of example_runtime example_request] clean origin
  show ?thesis
    by auto
qed

text \<open>
  C1 as stated fails where the \<open>Origin\<close> header is present with the empty value:
  \<open>req.headers.origin || '*'\<close> takes the empty string for falsy, so the response
  carries \<open>*\<close> and not the header's value. Here on the missing-url path.
\<close>

theorem empty_origin_counterexample:
  \<open>obj_get (req_headers (example_request\<lparr> query_url := None, req_headers := [(''origin'', '''')] \<rparr>))
      ''origin'' = Some '''' \<and>
   handler example_runtime
      (example_request\<lparr> query_url := None, req_headers := [(''origin'', '''')] \<rparr>) =
     Inr \<lparr> res_status = 400,
           res_headers =
             [(''Content-Type'', ''application/json''),
              (''Access-Control-Allow-Origin'', ''*''),
              (''Access-Control-Allow-Credentials'', ''false''),
              (''Access-Control-Allow-Methods'', ''GET,POST,PUT,PATCH,DELETE,OPTIONS''),
              (''Access-Control-Allow-Headers'',
                 ''Content-Type, Authorization, X-Requested-With, X-CSRF-Token, Accept, Origin''),
              (''Access-Control-Max-Age'', ''86400'')],
           res_body = End_json (JObj [(''error'', JStr msg_missing_url)]),
           fetch_calls = [] \<rparr>\<close>
  by (simp add: example_request_def obj_get_def handler_missing_url json_error_headers_eq
        corsHeaders_eq)

section \<open>C2: the relayed response\<close>

text \<open>
  What \<open>relay_headers\<close> builds, property by property, for upstream headers with
  distinct names: the five cross-origin headers, then
  \<open>Access-Control-Expose-Headers\<close>, then the upstream headers that are not
  hop-by-hop (and not named \<open>__proto__\<close>, which the assignment of line 117 does
  not store). The status is the upstream status (lemma \<open>handler_relay\<close>).
\<close>

lemma lower_expose_headers:
  "toLowerCase ''Access-Control-Expose-Headers'' = ''access-control-expose-headers''"
  by code_simp

lemma relay_headers_lookup:
  assumes "distinct (map fst hs)"
  shows "obj_get (relay_headers origin hs) k =
     (if k = ''Access-Control-Allow-Origin'' then Some origin
      else if k = ''Access-Control-Allow-Credentials'' then Some ''false''
      else if k = ''Access-Control-Allow-Methods'' then Some ''GET,POST,PUT,PATCH,DELETE,OPTIONS''
      else if k = ''Access-Control-Allow-Headers'' then
        Some ''Content-Type, Authorization, X-Requested-With, X-CSRF-Token, Accept, Origin''
      else if k = ''Access-Control-Max-Age'' then Some ''86400''
      else if k = ''Access-Control-Expose-Headers'' then
        Some (case map_of hs k of
                None \<Rightarrow> ''Content-Type, Content-Length, ETag''
              | Some v \<Rightarrow> if v = [] then ''Content-Type, Content-Length, ETag'' else v)
      else if toLowerCase k \<in> set HOP_BY_HOP \<or> k = ''__proto__'' then None
      else map_of hs k)"
proof -
  have copied: "obj_get (copy_response_headers [] hs) k' =
      (if toLowerCase k' \<in> set HOP_BY_HOP \<or> k' = ''__proto__'' then None
       else map_of hs k')" for k'
    using assms
    by (simp add: obj_get_copy_response_headers) (simp add: obj_get_def split: option.splits)
  have expose: "toLowerCase ''Access-Control-Expose-Headers'' \<notin> set HOP_BY_HOP"
    by (simp add: lower_expose_headers HOP_BY_HOP_def)
  show ?thesis
    by (cases "map_of hs ''Access-Control-Expose-Headers''")
       (simp_all add: relay_headers_def Let_def copy_key_def cors_lookup obj_get_obj_set
          copied expose default_expose_headers_def)
qed

text \<open>
  \<open>upstream.headers.forEach\<close> visits the names in lower case (the Fetch standard's
  iteration, and node-fetch's). For such headers the property
  \<open>Access-Control-Expose-Headers\<close>, spelled with capitals, is never among the copied
  ones, so line 127 always writes the default.
\<close>

lemma expose_headers_always_default:
  assumes "\<forall>p \<in> set hs. toLowerCase (fst p) = fst p"
  shows "obj_get (relay_headers origin hs) ''Access-Control-Expose-Headers'' =
     Some ''Content-Type, Content-Length, ETag''"
proof -
  have "''Access-Control-Expose-Headers'' \<notin> fst ` set hs"
  proof
    assume "''Access-Control-Expose-Headers'' \<in> fst ` set hs"
    with assms have
      "toLowerCase ''Access-Control-Expose-Headers'' = ''Access-Control-Expose-Headers''"
      by force
    then show False
      by (simp add: lower_expose_headers)
  qed
  then have "obj_get (copy_response_headers [] hs) ''Access-Control-Expose-Headers'' = None"
    by (simp add: name_not_visited obj_get_empty)
  then show ?thesis
    by (simp add: relay_headers_def Let_def copy_key_def cors_lookup obj_get_obj_set
          default_expose_headers_def)
qed

text \<open>
  Claim C2 holds for the status, for the hop-by-hop filter and for the cross-origin
  set, and fails for \<open>Access-Control-Expose-Headers\<close>. The example upstream answers
  200 with \<open>access-control-expose-headers: X-Request-Id\<close>, \<open>connection\<close> and
  \<open>content-type\<close>. The relayed response has status 200 and drops \<open>connection\<close>, but
  it sets \<open>Access-Control-Expose-Headers\<close> to the default although the upstream had
  set a value: line 127 looks the value up under the capitalised spelling, and the
  copied header is stored under the lower-case one. Both properties are passed to
  \<open>writeHead\<close>.
\<close>

theorem expose_headers_overridden:
  \<open>handler example_runtime example_request =
   Inr \<lparr> res_status = 200,
         res_headers =
           [(''access-control-expose-headers'', ''X-Request-Id''),
            (''content-type'', ''application/json''),
            (''Access-Control-Allow-Origin'', ''https://app.example''),
            (''Access-Control-Allow-Credentials'', ''false''),
            (''Access-Control-Allow-Methods'', ''GET,POST,PUT,PATCH,DELETE,OPTIONS''),
            (''Access-Control-Allow-Headers'',
               ''Content-Type, Authorization, X-Requested-With, X-CSRF-Token, Accept, Origin''),
            (''Access-Control-Max-Age'', ''86400''),
            (''Access-Control-Expose-Headers'', ''Content-Type, Content-Length, ETag'')],
         res_body = Piped ''{"ok":true}'',
         fetch_calls =
           [(''https://api.example.com/data'',
             \<lparr> init_method = ''GET'',
               init_headers =
                 [(''user-agent'', JStr ''curl/8.0''),
                  (''authorization'', JStr ''Basic b2xk'')],
               init_body = None \<rparr>)] \<rparr>\<close>
  by code_simp

section \<open>C3: the headers of the outbound request\<close>







section \<open>C4: a missing or invalid target\<close>

text \<open>
  Claim C4. For every request that is not a preflight: if the \<open>url\<close> query parameter
  is missing, or if it is present but \<open>new URL\<close> rejects it or parses it to a scheme
  other than \<open>http:\<close> and \<open>https:\<close>, the response has status 400, its body is the
  JSON text of an object with the single field \<open>error\<close> (a string), sent as
  \<open>application/json\<close>, and no upstream call is made.
\<close>

theorem missing_or_invalid_url_is_400:
  assumes "req_method req \<noteq> ''OPTIONS''"
    and "query_url req = None \<or>
         (\<exists>u. query_url req = Some u \<and>
              (URL_parse rt u = None \<or>
               (\<exists>parsed. URL_parse rt u = Some parsed \<and>
                  protocol parsed \<noteq> ''http:'' \<and> protocol parsed \<noteq> ''https:'')))"
  shows "\<exists>out message.
           handler rt req = Inr out \<and> res_status out = 400 \<and>
           res_body out = End_json (JObj [(''error'', JStr message)]) \<and>
           obj_get (res_headers out) ''Content-Type'' = Some ''application/json'' \<and>
           fetch_calls out = []"
proof (cases "truthy_str (query_url req)")
  case False
  with assms(1) show ?thesis
    by (simp add: handler_missing_url json_error_lookup)
next
  case True
  then obtain u where u: "query_url req = Some u" "u \<noteq> []"
    by (cases "query_url req") auto
  with assms(2) have "\<not> isHttpUrl rt u"
    by (auto simp: isHttpUrl_def)
  with assms(1) u show ?thesis
    by (simp add: handler_invalid_url json_error_lookup)
qed

text \<open>The theorem at a request without \<open>url\<close> and at one for \<open>ftp://example.com\<close>.\<close>

theorem missing_or_invalid_url_is_400_witness:
  \<open>req_method example_request \<noteq> ''OPTIONS'' \<and>
   query_url (example_request\<lparr> query_url := None \<rparr>) = None \<and>
   URL_parse example_runtime ''ftp://example.com'' =
     Some \<lparr> protocol = ''ftp:'', hostname = ''example.com'' \<rparr> \<and>
   (\<exists>out message.
      handler example_runtime (example_request\<lparr> query_url := None \<rparr>) = Inr out \<and>
      res_status out = 400 \<and> res_body out = End_json (JObj [(''error'', JStr message)])) \<and>
   (\<exists>out message.
      handler example_runtime (example_request\<lparr> query_url := Some ''ftp://example.com'' \<rparr>) =
        Inr out \<and>
      res_status out = 400 \<and> res_body out = End_json (JObj [(''error'', JStr message)]))\<close>
proof -
  have m: "req_method example_request \<noteq> ''OPTIONS''"
    by (simp add: example_request_def)
  have p: "URL_parse example_runtime ''ftp://example.com'' =
      Some \<lparr> protocol = ''ftp:'', hostname = ''example.com'' \<rparr>"
    by (simp add: example_runtime_def)
  have a: "\<exists>out message.
      handler example_runtime (example_request\<lparr> query_url := None \<rparr>) = Inr out \<and>
      res_status out = 400 \<and> res_body out = End_json (JObj [(''error'', JStr message)])"
    using missing_or_invalid_url_is_400
      [of "example_request\<lparr> query_url := None \<rparr>" example_runtime] m
    by auto
  have b: "\<exists>out message.
      handler example_runtime (example_request\<lparr> query_url := Some ''ftp://example.com'' \<rparr>) =
        Inr out \<and>
      res_status out = 400 \<and> res_body out = End_json (JObj [(''error'', JStr message)])"
    using missing_or_invalid_url_is_400
      [of "example_request\<lparr> query_url := Some ''ftp://example.com'' \<rparr>" example_runtime] m p
    by auto
  from m p a b show ?thesis by simp
qed

section \<open>C5: the allow-list\<close>

text \<open>What \<open>allowedByEnv\<close> computes once the target has parsed.\<close>

lemma allowedByEnv_unset:
  "\<not> truthy_str (env_ALLOWLIST rt) \<Longrightarrow> allowedByEnv rt u = Inr True"
  by (simp add: allowedByEnv_def)

lemma allowedByEnv_configured:
  "env_ALLOWLIST rt = Some a \<Longrightarrow> a \<noteq> [] \<Longrightarrow> URL_parse rt u = Some parsed \<Longrightarrow>
   allowedByEnv rt u =
     Inr (\<exists>e \<in> set (split (CHR '','') a).
            toLowerCase (trim e) = toLowerCase (hostname parsed))"
  by (force simp: allowedByEnv_def)

text \<open>
  Claim C5. Take a request that is not a preflight and whose \<open>url\<close> parses to an
  \<open>http:\<close> or \<open>https:\<close> target. With no allow-list configured, that is
  \<open>ALLOWLIST\<close> unset or set to the empty string (which line 54 takes for unset),
  the request is permitted, whatever the hostname: the upstream call is made. With
  an allow-list configured
  (\<open>ALLOWLIST\<close> set to a non-empty string), the request is permitted exactly when
  the lower-cased hostname equals the lower-cased form of one of the comma-separated
  entries, each taken without its surrounding white space; there is no pattern or
  suffix matching, only equality. Otherwise the response is 403 with the JSON error
  body of line 84, and no upstream call is made.
\<close>

theorem allow_list_decides:
  assumes "req_method req \<noteq> ''OPTIONS''"
    and "query_url req = Some u" and "u \<noteq> []"
    and "URL_parse rt u = Some parsed"
    and "protocol parsed = ''http:'' \<or> protocol parsed = ''https:''"
  shows "(env_ALLOWLIST rt = None \<or> env_ALLOWLIST rt = Some [] \<longrightarrow>
            (\<exists>out. handler rt req = Inr out \<and> fetch_calls out = [(u, fetch_init_of rt req)])) \<and>
         (\<forall>a. env_ALLOWLIST rt = Some a \<and> a \<noteq> [] \<longrightarrow>
            (if \<exists>e \<in> set (split (CHR '','') a).
                  toLowerCase (trim e) = toLowerCase (hostname parsed)
             then \<exists>out. handler rt req = Inr out \<and>
                        fetch_calls out = [(u, fetch_init_of rt req)]
             else \<exists>out.
                    handler rt req = Inr out \<and> res_status out = 403 \<and>
                    res_body out =
                      End_json (JObj [(''error'', JStr ''Host no permitido por ALLOWLIST'')]) \<and>
                    obj_get (res_headers out) ''Content-Type'' = Some ''application/json'' \<and>
                    fetch_calls out = []))"
proof (intro conjI allI impI)
  have http: "isHttpUrl rt u"
    using assms(4,5) by (simp add: isHttpUrl_def)
  {
    assume "env_ALLOWLIST rt = None \<or> env_ALLOWLIST rt = Some []"
    then have "\<not> truthy_str (env_ALLOWLIST rt)"
      by auto
    then have "allowedByEnv rt u = Inr True"
      by (rule allowedByEnv_unset)
    with assms(1-3) http have "passes_validation rt req u"
      by (simp add: passes_validation_def)
    then show "\<exists>out. handler rt req = Inr out \<and> fetch_calls out = [(u, fetch_init_of rt req)]"
      by (rule handler_issues_one_call)
  }
  {
    fix a
    assume "env_ALLOWLIST rt = Some a \<and> a \<noteq> []"
    then have allowed: "allowedByEnv rt u =
        Inr (\<exists>e \<in> set (split (CHR '','') a).
               toLowerCase (trim e) = toLowerCase (hostname parsed))"
      using assms(4) by (simp add: allowedByEnv_configured)
    show "if \<exists>e \<in> set (split (CHR '','') a).
               toLowerCase (trim e) = toLowerCase (hostname parsed)
          then \<exists>out. handler rt req = Inr out \<and> fetch_calls out = [(u, fetch_init_of rt req)]
          else \<exists>out.
                 handler rt req = Inr out \<and> res_status out = 403 \<and>
                 res_body out =
                   End_json (JObj [(''error'', JStr ''Host no permitido por ALLOWLIST'')]) \<and>
                 obj_get (res_headers out) ''Content-Type'' = Some ''application/json'' \<and>
                 fetch_calls out = []"
    proof (cases "\<exists>e \<in> set (split (CHR '','') a).
                    toLowerCase (trim e) = toLowerCase (hostname parsed)")
      case True
      with allowed assms(1-3) http have "passes_validation rt req u"
        by (simp add: passes_validation_def)
      then have "\<exists>out. handler rt req = Inr out \<and>
          fetch_calls out = [(u, fetch_init_of rt req)]"
        by (rule handler_issues_one_call)
      with True show ?thesis by simp
    next
      case False
      with allowed have "allowedByEnv rt u = Inr False" by simp
      with assms(1-3) http have "handler rt req =
          Inr \<lparr> res_status = 403,
                res_headers =
                  json_error_headers (or_str (obj_get (req_headers req) ''origin'') ''*''),
                res_body = End_json (JObj [(''error'', JStr msg_host_not_allowed)]),
                fetch_calls = [] \<rparr>"
        by (rule handler_host_not_allowed)
      with False show ?thesis
        by (simp add: json_error_lookup msg_host_not_allowed_def)
    qed
  }
qed

text \<open>
  The theorem under the allow-list \<open>Example.org, API.example.com\<close>: the target
  \<open>api.example.com\<close> is let through, \<open>other.com\<close> is refused. And under the empty
  \<open>ALLOWLIST\<close>: the call for \<open>other.com\<close> is made.
\<close>

theorem allow_list_decides_witness:
  \<open>(\<exists>out. handler (example_runtime\<lparr> env_ALLOWLIST := Some ''Example.org, API.example.com'' \<rparr>)
             example_request = Inr out \<and>
          fetch_calls out =
            [(''https://api.example.com/data'',
              fetch_init_of (example_runtime\<lparr> env_ALLOWLIST := Some ''Example.org, API.example.com'' \<rparr>)
                example_request)]) \<and>
   (\<exists>out.
      handler (example_runtime\<lparr> env_ALLOWLIST := Some ''Example.org, API.example.com'' \<rparr>)
        (example_request\<lparr> query_url := Some ''https://other.com/x'' \<rparr>) = Inr out \<and>
      res_status out = 403 \<and>
      res_body out = End_json (JObj [(''error'', JStr ''Host no permitido por ALLOWLIST'')]) \<and>
      fetch_calls out = []) \<and>
   (\<exists>out. handler (example_runtime\<lparr> env_ALLOWLIST := Some [] \<rparr>)
             (example_request\<lparr> query_url := Some ''https://other.com/x'' \<rparr>) = Inr out \<and>
          fetch_calls out =
            [(''https://other.com/x'',
              fetch_init_of (example_runtime\<lparr> env_ALLOWLIST := Some [] \<rparr>)
                (example_request\<lparr> query_url := Some ''https://other.com/x'' \<rparr>))])\<close>
proof -
  let ?rt = "example_runtime\<lparr> env_ALLOWLIST := Some ''Example.org, API.example.com'' \<rparr>"
  let ?empty = "example_runtime\<lparr> env_ALLOWLIST := Some [] \<rparr>"
  let ?other = "example_request\<lparr> query_url := Some ''https://other.com/x'' \<rparr>"
  let ?api_url = "\<lparr> protocol = ''https:'', hostname = ''api.example.com'' \<rparr>"
  let ?other_url = "\<lparr> protocol = ''https:'', hostname = ''other.com'' \<rparr>"
  have env: "env_ALLOWLIST ?rt = Some ''Example.org, API.example.com'' \<and>
      ''Example.org, API.example.com'' \<noteq> []"
    by simp
  have listed: "(\<exists>e \<in> set (split (CHR '','') ''Example.org, API.example.com'').
      toLowerCase (trim e) = toLowerCase (hostname ?api_url)) = True"
    by code_simp
  have unlisted: "(\<exists>e \<in> set (split (CHR '','') ''Example.org, API.example.com'').
      toLowerCase (trim e) = toLowerCase (hostname ?other_url)) = False"
    by code_simp
  have m: "req_method example_request \<noteq> ''OPTIONS''"
    "req_method ?other \<noteq> ''OPTIONS''"
    by (simp_all add: example_request_def)
  have q: "query_url example_request = Some ''https://api.example.com/data''"
    "query_url ?other = Some ''https://other.com/x''"
    by (simp_all add: example_request_def)
  have p: "URL_parse ?rt ''https://api.example.com/data'' = Some ?api_url"
    "URL_parse ?rt ''https://other.com/x'' = Some ?other_url"
    "URL_parse ?empty ''https://other.com/x'' = Some ?other_url"
    by (simp_all add: example_runtime_def)
  have "if \<exists>e \<in> set (split (CHR '','') ''Example.org, API.example.com'').
             toLowerCase (trim e) = toLowerCase (hostname ?api_url)
        then \<exists>out. handler ?rt example_request = Inr out \<and>
               fetch_calls out =
                 [(''https://api.example.com/data'', fetch_init_of ?rt example_request)]
        else \<exists>out.
               handler ?rt example_request = Inr out \<and> res_status out = 403 \<and>
               res_body out =
                 End_json (JObj [(''error'', JStr ''Host no permitido por ALLOWLIST'')]) \<and>
               obj_get (res_headers out) ''Content-Type'' = Some ''application/json'' \<and>
               fetch_calls out = []"
    using allow_list_decides [OF m(1) q(1) _ p(1), THEN conjunct2, rule_format, OF _ _ env]
    by simp
  then have a: "\<exists>out. handler ?rt example_request = Inr out \<and>
      fetch_calls out = [(''https://api.example.com/data'', fetch_init_of ?rt example_request)]"
    by (simp only: listed if_True)
  have "if \<exists>e \<in> set (split (CHR '','') ''Example.org, API.example.com'').
             toLowerCase (trim e) = toLowerCase (hostname ?other_url)
        then \<exists>out. handler ?rt ?other = Inr out \<and>
               fetch_calls out = [(''https://other.com/x'', fetch_init_of ?rt ?other)]
        else \<exists>out.
               handler ?rt ?other = Inr out \<and> res_status out = 403 \<and>
               res_body out =
                 End_json (JObj [(''error'', JStr ''Host no permitido por ALLOWLIST'')]) \<and>
               obj_get (res_headers out) ''Content-Type'' = Some ''application/json'' \<and>
               fetch_calls out = []"
    using allow_list_decides [OF m(2) q(2) _ p(2), THEN conjunct2, rule_format, OF _ _ env]
    by simp
  then have "\<exists>out.
      handler ?rt ?other = Inr out \<and> res_status out = 403 \<and>
      res_body out = End_json (JObj [(''error'', JStr ''Host no permitido por ALLOWLIST'')]) \<and>
      obj_get (res_headers out) ''Content-Type'' = Some ''application/json'' \<and>
      fetch_calls out = []"
    by (simp only: unlisted if_False)
  then have b: "\<exists>out.
      handler ?rt ?other = Inr out \<and> res_status out = 403 \<and>
      res_body out = End_json (JObj [(''error'', JStr ''Host no permitido por ALLOWLIST'')]) \<and>
      fetch_calls out = []"
    by blast
  have c: "\<exists>out. handler ?empty ?other = Inr out \<and>
      fetch_calls out = [(''https://other.com/x'', fetch_init_of ?empty ?other)]"
    using allow_list_decides [OF m(2) q(2) _ p(3), THEN conjunct1]
    by simp
  from a b c show ?thesis by blast
qed

section \<open>C6: upstream failure, and no call before validation\<close>

text \<open>
  Claim C6. For every request that passes validation, if \<open>fetch\<close> fails with a message
  then the response has status 502, the JSON body
  \<open>{"error": "Upstream error", "detail": message}\<close> and, after
  \<open>Content-Type: application/json\<close>, the five headers of the cross-origin set, each
  written out below with its value. And for every request that fails validation,
  because \<open>url\<close> is missing (or empty), because \<open>isHttpUrl\<close> rejects it or because
  \<open>allowedByEnv\<close> returns false, the handler makes no upstream call.
\<close>

theorem upstream_failure_is_502:
  "(passes_validation rt req u \<and> fetch rt u (fetch_init_of rt req) = Inl message \<longrightarrow>
      handler rt req =
        Inr \<lparr> res_status = 502,
              res_headers =
                [(''Content-Type'', ''application/json''),
                 (''Access-Control-Allow-Origin'',
                    (case obj_get (req_headers req) ''origin'' of
                       None \<Rightarrow> ''*'' | Some v \<Rightarrow> if v = [] then ''*'' else v)),
                 (''Access-Control-Allow-Credentials'', ''false''),
                 (''Access-Control-Allow-Methods'', ''GET,POST,PUT,PATCH,DELETE,OPTIONS''),
                 (''Access-Control-Allow-Headers'',
                    ''Content-Type, Authorization, X-Requested-With, X-CSRF-Token, Accept, Origin''),
                 (''Access-Control-Max-Age'', ''86400'')],
              res_body =
                End_json (JObj [(''error'', JStr ''Upstream error''), (''detail'', JStr message)]),
              fetch_calls = [(u, fetch_init_of rt req)] \<rparr>) \<and>
   (query_url req = None \<or> query_url req = Some [] \<or>
    (\<exists>v. query_url req = Some v \<and> \<not> isHttpUrl rt v) \<or>
    (\<exists>v. query_url req = Some v \<and> allowedByEnv rt v = Inr False) \<longrightarrow>
      (\<exists>out. handler rt req = Inr out \<and> fetch_calls out = []))"
proof (intro conjI impI)
  assume "passes_validation rt req u \<and> fetch rt u (fetch_init_of rt req) = Inl message"
  then have "passes_validation rt req u" and "fetch rt u (fetch_init_of rt req) = Inl message"
    by simp_all
  moreover have "or_str (obj_get (req_headers req) ''origin'') ''*'' =
      (case obj_get (req_headers req) ''origin'' of
         None \<Rightarrow> ''*'' | Some v \<Rightarrow> if v = [] then ''*'' else v)"
    by (cases "obj_get (req_headers req) ''origin''") simp_all
  ultimately show "handler rt req =
        Inr \<lparr> res_status = 502,
              res_headers =
                [(''Content-Type'', ''application/json''),
                 (''Access-Control-Allow-Origin'',
                    (case obj_get (req_headers req) ''origin'' of
                       None \<Rightarrow> ''*'' | Some v \<Rightarrow> if v = [] then ''*'' else v)),
                 (''Access-Control-Allow-Credentials'', ''false''),
                 (''Access-Control-Allow-Methods'', ''GET,POST,PUT,PATCH,DELETE,OPTIONS''),
                 (''Access-Control-Allow-Headers'',
                    ''Content-Type, Authorization, X-Requested-With, X-CSRF-Token, Accept, Origin''),
                 (''Access-Control-Max-Age'', ''86400'')],
              res_body =
                End_json (JObj [(''error'', JStr ''Upstream error''), (''detail'', JStr message)]),
              fetch_calls = [(u, fetch_init_of rt req)] \<rparr>"
    by (simp add: handler_upstream_error json_error_headers_eq corsHeaders_eq)
next
  assume stopped: "query_url req = None \<or> query_url req = Some [] \<or>
    (\<exists>v. query_url req = Some v \<and> \<not> isHttpUrl rt v) \<or>
    (\<exists>v. query_url req = Some v \<and> allowedByEnv rt v = Inr False)"
  show "\<exists>out. handler rt req = Inr out \<and> fetch_calls out = []"
  proof (cases rule: handler_paths [where req = req and rt = rt])
    case preflight
    then show ?thesis by (simp add: handler_preflight)
  next
    case missing
    then show ?thesis by (simp add: handler_missing_url)
  next
    case (invalid v)
    then show ?thesis by (simp add: handler_invalid_url)
  next
    case (forbidden v)
    then show ?thesis by (simp add: handler_host_not_allowed)
  next
    case (failed v message)
    with stopped show ?thesis by (auto simp: passes_validation_def)
  next
    case (relayed v upstream)
    with stopped show ?thesis by (auto simp: passes_validation_def)
  qed
qed

text \<open>
  The theorem at a target the example \<open>fetch\<close> cannot resolve, and at a request for
  \<open>ftp://example.com\<close>, which fails validation.
\<close>

theorem upstream_failure_is_502_witness:
  \<open>passes_validation example_runtime
      (example_request\<lparr> query_url := Some ''https://other.com/x'' \<rparr>) ''https://other.com/x'' \<and>
   (\<exists>init.
      handler example_runtime (example_request\<lparr> query_url := Some ''https://other.com/x'' \<rparr>) =
        Inr \<lparr> res_status = 502,
              res_headers =
                [(''Content-Type'', ''application/json''),
                 (''Access-Control-Allow-Origin'', ''https://app.example''),
                 (''Access-Control-Allow-Credentials'', ''false''),
                 (''Access-Control-Allow-Methods'', ''GET,POST,PUT,PATCH,DELETE,OPTIONS''),
                 (''Access-Control-Allow-Headers'',
                    ''Content-Type, Authorization, X-Requested-With, X-CSRF-Token, Accept, Origin''),
                 (''Access-Control-Max-Age'', ''86400'')],
              res_body =
                End_json (JObj [(''error'', JStr ''Upstream error''),
                                (''detail'', JStr ''getaddrinfo ENOTFOUND other.com'')]),
              fetch_calls = [(''https://other.com/x'', init)] \<rparr>) \<and>
   \<not> isHttpUrl example_runtime ''ftp://example.com'' \<and>
   (\<exists>out. handler example_runtime (example_request\<lparr> query_url := Some ''ftp://example.com'' \<rparr>) =
            Inr out \<and>
          fetch_calls out = [])\<close>
proof -
  let ?down = "example_request\<lparr> query_url := Some ''https://other.com/x'' \<rparr>"
  let ?ftp = "example_request\<lparr> query_url := Some ''ftp://example.com'' \<rparr>"
  have pv: "passes_validation example_runtime ?down ''https://other.com/x''"
    by (simp add: passes_validation_def isHttpUrl_def allowedByEnv_def example_runtime_def
          example_request_def)
  have rejected: "fetch example_runtime ''https://other.com/x''
      (fetch_init_of example_runtime ?down) = Inl ''getaddrinfo ENOTFOUND other.com''"
    by (simp add: example_runtime_def)
  have origin: "obj_get (req_headers example_request) ''origin'' = Some ''https://app.example''"
    by (simp add: example_request_def obj_get_def)
  have ftp: "\<not> isHttpUrl example_runtime ''ftp://example.com''"
    by (simp add: isHttpUrl_def example_runtime_def)
  have a: "\<exists>init.
      handler example_runtime ?down =
        Inr \<lparr> res_status = 502,
              res_headers =
                [(''Content-Type'', ''application/json''),
                 (''Access-Control-Allow-Origin'', ''https://app.example''),
                 (''Access-Control-Allow-Credentials'', ''false''),
                 (''Access-Control-Allow-Methods'', ''GET,POST,PUT,PATCH,DELETE,OPTIONS''),
                 (''Access-Control-Allow-Headers'',
                    ''Content-Type, Authorization, X-Requested-With, X-CSRF-Token, Accept, Origin''),
                 (''Access-Control-Max-Age'', ''86400'')],
              res_body =
                End_json (JObj [(''error'', JStr ''Upstream error''),
                                (''detail'', JStr ''getaddrinfo ENOTFOUND other.com'')]),
              fetch_calls = [(''https://other.com/x'', init)] \<rparr>"
    using upstream_failure_is_502
      [of example_runtime ?down "''https://other.com/x''" "''getaddrinfo ENOTFOUND other.com''"]
      pv rejected origin
    by simp
  have b: "\<exists>out. handler example_runtime ?ftp = Inr out \<and> fetch_calls out = []"
    using upstream_failure_is_502 [of example_runtime ?ftp] ftp
    by auto
  from pv a ftp b show ?thesis by simp
qed

section \<open>C7: decoding the extra headers\<close>

text \<open>
  Claim C7, as amended. For every value of \<open>h64\<close> the handler still returns a
  response: decoding never raises. The decoded value is used as the Extra Header Set
  exactly when \<open>h64\<close> is not empty, the base64 decoding and the JSON parsing both
  succeed, and the result is a non-null value of JavaScript type \<open>object\<close>, that is
  a JSON object or a JSON array; its entries are then assigned onto the outbound
  headers. In every other case (a decoding that throws, invalid JSON, \<open>null\<close>, a
  number, a string, a boolean) the Extra Header Set is absent and the handler does
  exactly what it does for the same request without \<open>h64\<close>.
\<close>

theorem extra_header_decoding:
  "(\<exists>out. handler rt req = Inr out) \<and>
   (extraHeaders rt req = Some v \<longleftrightarrow>
      (\<exists>h64 text. query_h64 req = Some h64 \<and> h64 \<noteq> [] \<and>
         base64_utf8 rt h64 = Some text \<and> JSON_parse rt text = Some v \<and>
         ((\<exists>kvs. v = JObj kvs) \<or> (\<exists>xs. v = JArr xs)))) \<and>
   (extraHeaders rt req = None \<longrightarrow> handler rt req = handler rt (req\<lparr> query_h64 := None \<rparr>)) \<and>
   (extraHeaders rt req = Some v \<longrightarrow>
      upstreamHeaders rt req =
        assign_all (upstreamHeaders rt (req\<lparr> query_h64 := None \<rparr>)) (entries v))"
proof (intro conjI impI)
  show "\<exists>out. handler rt req = Inr out"
    by (cases rule: handler_paths [where req = req and rt = rt])
       (simp_all add: handler_preflight handler_missing_url handler_invalid_url
          handler_host_not_allowed handler_upstream_error handler_relay)
  have object: "truthy w \<and> typeof w = ''object'' \<longleftrightarrow>
      (\<exists>kvs. w = JObj kvs) \<or> (\<exists>xs. w = JArr xs)" for w
    by (cases w) simp_all
  show "extraHeaders rt req = Some v \<longleftrightarrow>
      (\<exists>h64 text. query_h64 req = Some h64 \<and> h64 \<noteq> [] \<and>
         base64_utf8 rt h64 = Some text \<and> JSON_parse rt text = Some v \<and>
         ((\<exists>kvs. v = JObj kvs) \<or> (\<exists>xs. v = JArr xs)))"
    using object
    by (auto simp: extraHeaders_def decodeHeaderBase64_def split: option.splits if_splits)
  have without: "extraHeaders rt (req\<lparr> query_h64 := None \<rparr>) = None"
    by (simp add: extraHeaders_def)
  {
    assume "extraHeaders rt req = None"
    then have "upstreamHeaders rt req = upstreamHeaders rt (req\<lparr> query_h64 := None \<rparr>)"
      by (simp add: upstreamHeaders_def without)
    then have "fetch_init_of rt (req\<lparr> query_h64 := None \<rparr>) = fetch_init_of rt req"
      by (simp add: fetch_init_of_def)
    then show "handler rt req = handler rt (req\<lparr> query_h64 := None \<rparr>)"
      by (simp add: handler_def Let_def cong: if_cong sum.case_cong)
  }
  {
    assume "extraHeaders rt req = Some v"
    then show "upstreamHeaders rt req =
        assign_all (upstreamHeaders rt (req\<lparr> query_h64 := None \<rparr>)) (entries v)"
      by (simp add: upstreamHeaders_def without Let_def)
  }
qed

text \<open>
  The theorem at an \<open>h64\<close> that decodes to no JSON text (ignored) and at
  \<open>base64({"Authorization": "Bearer abc"})\<close> (used).
\<close>

theorem extra_header_decoding_witness:
  \<open>extraHeaders example_runtime (example_request\<lparr> query_h64 := Some ''%%%'' \<rparr>) = None \<and>
   handler example_runtime (example_request\<lparr> query_h64 := Some ''%%%'' \<rparr>) =
     handler example_runtime example_request \<and>
   extraHeaders example_runtime
     (example_request\<lparr> query_h64 := Some ''eyJBdXRob3JpemF0aW9uIjoiQmVhcmVyIGFiYyJ9'' \<rparr>) =
     Some (JObj [(''Authorization'', JStr ''Bearer abc'')]) \<and>
   upstreamHeaders example_runtime
     (example_request\<lparr> query_h64 := Some ''eyJBdXRob3JpemF0aW9uIjoiQmVhcmVyIGFiYyJ9'' \<rparr>) =
     assign_all (upstreamHeaders example_runtime example_request)
       [(''Authorization'', JStr ''Bearer abc'')]\<close>
proof -
  let ?bad = "example_request\<lparr> query_h64 := Some ''%%%'' \<rparr>"
  let ?good = "example_request\<lparr> query_h64 := Some ''eyJBdXRob3JpemF0aW9uIjoiQmVhcmVyIGFiYyJ9'' \<rparr>"
  let ?v = "JObj [(''Authorization'', JStr ''Bearer abc'')]"
  have none: "extraHeaders example_runtime ?bad = None"
    by (simp add: extraHeaders_def decodeHeaderBase64_def example_runtime_def)
  have some: "extraHeaders example_runtime ?good = Some ?v"
    by (simp add: extraHeaders_def decodeHeaderBase64_def example_runtime_def)
  have same: "?bad\<lparr> query_h64 := None \<rparr> = example_request"
    "?good\<lparr> query_h64 := None \<rparr> = example_request"
    by (simp_all add: example_request_def)
  have a: "handler example_runtime ?bad = handler example_runtime example_request"
    using extra_header_decoding [of example_runtime ?bad] none same(1)
    by simp
  have b: "upstreamHeaders example_runtime ?good =
      assign_all (upstreamHeaders example_runtime example_request) (entries ?v)"
    using extra_header_decoding [of example_runtime ?good ?v] some same(2)
    by simp
  from none a some b show ?thesis
    by simp
qed

text \<open>
  C7 as stated fails for an \<open>h64\<close> that decodes to a JSON array, which is not a
  key-value object: \<open>typeof\<close> of an array is \<open>object\<close>, so \<open>decodeHeaderBase64\<close>
  returns it, and the upstream request gets one header per element, named by its
  index. Here \<open>h64 = base64(["a"])\<close> puts the header \<open>0: a\<close> on the upstream call.
\<close>

theorem array_extra_headers_counterexample:
  \<open>extraHeaders example_runtime (example_request\<lparr> query_h64 := Some ''WyJhIl0='' \<rparr>) =
     Some (JArr [JStr ''a'']) \<and>
   obj_get (upstreamHeaders example_runtime (example_request\<lparr> query_h64 := Some ''WyJhIl0='' \<rparr>))
     ''0'' = Some (JStr ''a'') \<and>
   obj_get (upstreamHeaders example_runtime example_request) ''0'' = None\<close>
  by code_simp

section \<open>C8: the body of the outbound request\<close>

text \<open>
  Claim C8. Every request that passes validation leads to one call of \<open>fetch\<close>, with
  the inbound method. When the method is GET or HEAD the call has no body, whatever
  the inbound request carried; for every other method its body is the inbound request
  stream itself.
\<close>

theorem outbound_body:
  assumes "passes_validation rt req u"
  shows "\<exists>out init.
           handler rt req = Inr out \<and> fetch_calls out = [(u, init)] \<and>
           init_method init = req_method req \<and>
           (req_method req = ''GET'' \<or> req_method req = ''HEAD'' \<longrightarrow> init_body init = None) \<and>
           (req_method req \<noteq> ''GET'' \<and> req_method req \<noteq> ''HEAD'' \<longrightarrow>
              init_body init = Some (req_stream req))"
proof -
  from assms obtain out where
    "handler rt req = Inr out" "fetch_calls out = [(u, fetch_init_of rt req)]"
    using handler_issues_one_call by blast
  then show ?thesis
    by (auto simp: fetch_init_of_def)
qed

text \<open>The theorem at a GET and at a POST that both carry a body.\<close>

theorem outbound_body_witness:
  \<open>passes_validation example_runtime example_request ''https://api.example.com/data'' \<and>
   passes_validation example_runtime (example_request\<lparr> req_method := ''POST'' \<rparr>)
     ''https://api.example.com/data'' \<and>
   (\<exists>out init.
      handler example_runtime example_request = Inr out \<and>
      fetch_calls out = [(''https://api.example.com/data'', init)] \<and>
      init_body init = None) \<and>
   (\<exists>out init.
      handler example_runtime (example_request\<lparr> req_method := ''POST'' \<rparr>) = Inr out \<and>
      fetch_calls out = [(''https://api.example.com/data'', init)] \<and>
      init_body init = Some ''{"hello":"world"}'')\<close>
proof -
  have g: "passes_validation example_runtime example_request ''https://api.example.com/data''"
    by (simp add: passes_validation_def isHttpUrl_def allowedByEnv_def example_runtime_def
          example_request_def)
  have p: "passes_validation example_runtime (example_request\<lparr> req_method := ''POST'' \<rparr>)
      ''https://api.example.com/data''"
    by (simp add: passes_validation_def isHttpUrl_def allowedByEnv_def example_runtime_def
          example_request_def)
  have a: "\<exists>out init.
      handler example_runtime example_request = Inr out \<and>
      fetch_calls out = [(''https://api.example.com/data'', init)] \<and>
      init_body init = None"
    using outbound_body [OF g] by (auto simp: example_request_def)
  have b: \<open>\<exists>out init.
      handler example_runtime (example_request\<lparr> req_method := ''POST'' \<rparr>) = Inr out \<and>
      fetch_calls out = [(''https://api.example.com/data'', init)] \<and>
      init_body init = Some ''{"hello":"world"}''\<close>
    using outbound_body [OF p] by (auto simp: example_request_def)
  from g p a b show ?thesis by simp
qed

section \<open>C9: the preflight\<close>

text \<open>
  Claim C9, as amended. For every request with method OPTIONS the handler answers with
  status 204, an empty body and exactly the cross-origin header set, in which
  \<open>Access-Control-Allow-Origin\<close> is the inbound \<open>origin\<close> header when that is
  present and not empty, and \<open>*\<close> when it is absent or empty. Nothing else happens:
  the answer does not depend on the runtime, on \<open>url\<close> or on \<open>h64\<close>, and no call of
  \<open>fetch\<close> is made.
\<close>

theorem preflight_response:
  assumes "req_method req = ''OPTIONS''"
  shows "handler rt req =
     Inr \<lparr> res_status = 204,
           res_headers =
             [(''Access-Control-Allow-Origin'',
                 (case obj_get (req_headers req) ''origin'' of
                    None \<Rightarrow> ''*'' | Some v \<Rightarrow> if v = [] then ''*'' else v)),
              (''Access-Control-Allow-Credentials'', ''false''),
              (''Access-Control-Allow-Methods'', ''GET,POST,PUT,PATCH,DELETE,OPTIONS''),
              (''Access-Control-Allow-Headers'',
                 ''Content-Type, Authorization, X-Requested-With, X-CSRF-Token, Accept, Origin''),
              (''Access-Control-Max-Age'', ''86400'')],
           res_body = End_empty,
           fetch_calls = [] \<rparr>"
proof -
  have "or_str (obj_get (req_headers req) ''origin'') ''*'' =
      (case obj_get (req_headers req) ''origin'' of
         None \<Rightarrow> ''*'' | Some v \<Rightarrow> if v = [] then ''*'' else v)"
    by (cases "obj_get (req_headers req) ''origin''") simp_all
  with assms show ?thesis
    by (simp add: handler_preflight corsHeaders_eq)
qed

text \<open>The theorem at a preflight of the example request.\<close>

theorem preflight_response_witness:
  \<open>req_method (example_request\<lparr> req_method := ''OPTIONS'' \<rparr>) = ''OPTIONS'' \<and>
   handler example_runtime (example_request\<lparr> req_method := ''OPTIONS'' \<rparr>) =
     Inr \<lparr> res_status = 204,
           res_headers =
             [(''Access-Control-Allow-Origin'', ''https://app.example''),
              (''Access-Control-Allow-Credentials'', ''false''),
              (''Access-Control-Allow-Methods'', ''GET,POST,PUT,PATCH,DELETE,OPTIONS''),
              (''Access-Control-Allow-Headers'',
                 ''Content-Type, Authorization, X-Requested-With, X-CSRF-Token, Accept, Origin''),
              (''Access-Control-Max-Age'', ''86400'')],
           res_body = End_empty,
           fetch_calls = [] \<rparr>\<close>
proof -
  have m: "req_method (example_request\<lparr> req_method := ''OPTIONS'' \<rparr>) = ''OPTIONS''"
    by simp
  show ?thesis
    using m preflight_response [OF m, of example_runtime]
    by (simp add: example_request_def obj_get_def)
qed

text \<open>
  C9 as stated fails for a preflight whose \<open>Origin\<close> header is present with the empty
  value: the answer carries \<open>*\<close>, not the header's value.
\<close>

theorem preflight_empty_origin_counterexample:
  \<open>obj_get (req_headers (example_request\<lparr> req_method := ''OPTIONS'',
                                          req_headers := [(''origin'', '''')] \<rparr>))
      ''origin'' = Some '''' \<and>
   handler example_runtime
      (example_request\<lparr> req_method := ''OPTIONS'', req_headers := [(''origin'', '''')] \<rparr>) =
     Inr \<lparr> res_status = 204,
           res_headers =
             [(''Access-Control-Allow-Origin'', ''*''),
              (''Access-Control-Allow-Credentials'', ''false''),
              (''Access-Control-Allow-Methods'', ''GET,POST,PUT,PATCH,DELETE,OPTIONS''),
              (''Access-Control-Allow-Headers'',
                 ''Content-Type, Authorization, X-Requested-With, X-CSRF-Token, Accept, Origin''),
              (''Access-Control-Max-Age'', ''86400'')],
           res_body = End_empty,
           fetch_calls = [] \<rparr>\<close>
  by (simp add: example_request_def obj_get_def handler_preflight corsHeaders_eq)

section \<open>C10: extra headers come after the filter\<close>

text \<open>
  Claim C10. Take a request that passes validation and whose \<open>h64\<close> decodes to an
  object. Every entry of that object, except one named \<open>__proto__\<close> (which the
  assignment of line 102 does not store), is in the header object of the upstream
  call with the supplied value. This holds for the key \<open>origin\<close> and for
  hop-by-hop names such as \<open>host\<close> as well, although the same request without
  \<open>h64\<close> sends no header under such a name: the extra headers bring back what the
  filter removed.
\<close>

theorem extra_headers_reintroduce:
  assumes "passes_validation rt req u"
    and "query_h64 req = Some h64" and "h64 \<noteq> []"
    and "base64_utf8 rt h64 = Some text"
    and "JSON_parse rt text = Some (JObj kvs)"
    and "distinct (map fst kvs)"
    and "(k, v) \<in> set kvs"
    and "k \<noteq> ''__proto__''"
  shows "\<exists>out init.
     handler rt req = Inr out \<and> fetch_calls out = [(u, init)] \<and>
     obj_get (init_headers init) k = Some v \<and>
     v \<in> set (header_values (init_headers init) k) \<and>
     (k = ''origin'' \<or> toLowerCase k \<in> set HOP_BY_HOP \<longrightarrow>
        obj_get (init_headers (fetch_init_of rt (req\<lparr> query_h64 := None \<rparr>))) k = None)"
proof -
  let ?h1 = "copy_request_headers [] (req_headers req)"
  let ?h2 = "obj_set ''user-agent''
      (or_json (obj_get ?h1 ''user-agent'') (JStr default_user_agent)) ?h1"
  let ?h3 = "obj_delete ''origin'' ?h2"
  from assms(1) obtain out where out:
    "handler rt req = Inr out" "fetch_calls out = [(u, fetch_init_of rt req)]"
    using handler_issues_one_call by blast
  have "extraHeaders rt req = Some (JObj kvs)"
    using assms(2-5) by (simp add: extraHeaders_def decodeHeaderBase64_def)
  then have with_extra: "init_headers (fetch_init_of rt req) = assign_all ?h3 kvs"
    by (simp add: fetch_init_of_def upstreamHeaders_def Let_def)
  have "map_of kvs k = Some v"
    using assms(6,7) by simp
  with assms(6,8) have sent: "obj_get (init_headers (fetch_init_of rt req)) k = Some v"
    by (simp add: with_extra obj_get_assign_all)
  have without: "init_headers (fetch_init_of rt (req\<lparr> query_h64 := None \<rparr>)) = ?h3"
    by (simp add: fetch_init_of_def upstreamHeaders_def extraHeaders_def Let_def)
  have removed: "obj_get ?h3 k = None" if "k = ''origin'' \<or> toLowerCase k \<in> set HOP_BY_HOP"
  proof (cases "k = ''origin''")
    case True
    then show ?thesis by (simp add: obj_get_obj_delete)
  next
    case False
    with that have hop: "toLowerCase k \<in> set HOP_BY_HOP" by simp
    then have "k \<noteq> ''user-agent''" by (rule user_agent_not_hop)
    moreover from hop have "obj_get ?h1 k = None"
      by (simp add: hop_name_not_copied obj_get_empty)
    ultimately show ?thesis
      by (simp add: obj_get_obj_delete obj_get_obj_set)
  qed
  show ?thesis
  proof (intro exI conjI impI)
    show "handler rt req = Inr out" by (rule out(1))
    show "fetch_calls out = [(u, fetch_init_of rt req)]" by (rule out(2))
    show "obj_get (init_headers (fetch_init_of rt req)) k = Some v" by (rule sent)
    show "v \<in> set (header_values (init_headers (fetch_init_of rt req)) k)"
      using sent by (rule obj_get_in_header_values)
    assume "k = ''origin'' \<or> toLowerCase k \<in> set HOP_BY_HOP"
    then show "obj_get (init_headers (fetch_init_of rt (req\<lparr> query_h64 := None \<rparr>))) k = None"
      by (simp only: without removed)
  qed
qed

text \<open>
  The theorem at \<open>h64 = base64({"origin": "https://spoof.example", "host":
  "internal.example"})\<close>, for the key \<open>host\<close>.
\<close>

theorem extra_headers_reintroduce_witness:
  \<open>toLowerCase ''host'' \<in> set HOP_BY_HOP \<and>
   (\<exists>out init.
      handler example_runtime
        (example_request\<lparr> query_h64 :=
           Some ''eyJvcmlnaW4iOiJodHRwczovL3Nwb29mLmV4YW1wbGUiLCJob3N0IjoiaW50ZXJuYWwuZXhhbXBsZSJ9'' \<rparr>) =
        Inr out \<and>
      fetch_calls out = [(''https://api.example.com/data'', init)] \<and>
      obj_get (init_headers init) ''host'' = Some (JStr ''internal.example'')) \<and>
   obj_get (init_headers (fetch_init_of example_runtime example_request)) ''host'' = None\<close>
proof -
  let ?h64 = "''eyJvcmlnaW4iOiJodHRwczovL3Nwb29mLmV4YW1wbGUiLCJob3N0IjoiaW50ZXJuYWwuZXhhbXBsZSJ9''"
  let ?req = "example_request\<lparr> query_h64 := Some ?h64 \<rparr>"
  let ?kvs = "[(''origin'', JStr ''https://spoof.example''),
               (''host'', JStr ''internal.example'')]"
  have pv: "passes_validation example_runtime ?req ''https://api.example.com/data''"
    by (simp add: passes_validation_def isHttpUrl_def allowedByEnv_def example_runtime_def
          example_request_def)
  have q: "query_h64 ?req = Some ?h64" "?h64 \<noteq> []"
    by simp_all
  have d: \<open>base64_utf8 example_runtime ?h64 =
      Some ''{"origin":"https://spoof.example","host":"internal.example"}''\<close>
    by (simp add: example_runtime_def)
  have j: \<open>JSON_parse example_runtime
      ''{"origin":"https://spoof.example","host":"internal.example"}'' = Some (JObj ?kvs)\<close>
    by (simp add: example_runtime_def)
  have dist: "distinct (map fst ?kvs)"
    by simp
  have mem: "(''host'', JStr ''internal.example'') \<in> set ?kvs"
    by simp
  have hop: "toLowerCase ''host'' \<in> set HOP_BY_HOP"
    by code_simp
  have proto: "''host'' \<noteq> ''__proto__''"
    by simp
  have same: "?req\<lparr> query_h64 := None \<rparr> = example_request"
    by (simp add: example_request_def)
  from extra_headers_reintroduce [OF pv q d j dist mem proto] hop same
  show ?thesis
    by auto
qed

end
